theory Spec2Isabelle
  imports Main "HOL-Library.Multiset"
begin

section \<open>The blogango models: data and storage\<close>

text \<open>
  The models of \<^verbatim>\<open>blogango/models.py\<close>. A table is the list of its rows, in
  insertion order. A primary key is \<open>None\<close> on an object that was never stored.
  Every \<^verbatim>\<open>save\<close> takes the table and the object and returns what the caller can
  observe afterwards: the exception that propagated (if any), the object as the
  method left it (Python mutates \<^verbatim>\<open>self\<close> in place, also when it raises later),
  and the table.
\<close>

datatype error =
    Exception string
  | AttributeError
  | OverflowError

subsection \<open>The storage layer\<close>

text \<open>
  \<^verbatim>\<open>super().save()\<close> is the framework's \<^verbatim>\<open>Model.save\<close>: an object whose key
  is set and present in the table replaces that row; any other object is inserted,
  under its own key if it has one and under the next automatic key otherwise.
  The function is generic in the row type: \<open>key\<close> reads the primary key and
  \<open>set_key\<close> stores one.
\<close>

definition next_pk :: "int option list \<Rightarrow> int" where
  "next_pk ks = fold (\<lambda>k m. case k of None \<Rightarrow> m | Some j \<Rightarrow> max j m) ks 0 + 1"

definition Model_save ::
  "('r \<Rightarrow> int option) \<Rightarrow> (int \<Rightarrow> 'r \<Rightarrow> 'r) \<Rightarrow> 'r list \<Rightarrow> 'r \<Rightarrow> 'r \<times> 'r list" where
  "Model_save key set_key table self =
     (case key self of
        None \<Rightarrow>
          (let self' = set_key (next_pk (map key table)) self in (self', table @ [self']))
      | Some k \<Rightarrow>
          (if Some k \<in> set (map key table)
           then (self, map (\<lambda>r. if key r = Some k then self else r) table)
           else (self, table @ [self])))"

definition get_row :: "('r \<Rightarrow> int option) \<Rightarrow> 'r list \<Rightarrow> int option \<Rightarrow> 'r option" where
  "get_row key table k = (case k of None \<Rightarrow> None | Some _ \<Rightarrow> find (\<lambda>r. key r = k) table)"

subsection \<open>Blog\<close>

record Blog =
  blog_id :: "int option"
  blog_title :: string
  tag_line :: string
  entries_per_page :: int
  recents :: int
  recent_comments :: int

text \<open>Python's truth value of \<^verbatim>\<open>self.id\<close>: \<^verbatim>\<open>None\<close> and \<^verbatim>\<open>0\<close> are false.\<close>

definition truthy_id :: "int option \<Rightarrow> bool" where
  "truthy_id k = (case k of None \<Rightarrow> False | Some j \<Rightarrow> j \<noteq> 0)"

definition Blog_set_id :: "int \<Rightarrow> Blog \<Rightarrow> Blog" where
  "Blog_set_id k b = b\<lparr>blog_id := Some k\<rparr>"

text \<open>
  \<^verbatim>\<open>Blog.save\<close>: \<^verbatim>\<open>Blog.objects\<close> is the unfiltered \<^verbatim>\<open>BlogManager\<close>, so
  \<^verbatim>\<open>count()\<close> is the number of rows.
\<close>

definition Blog_save :: "Blog list \<Rightarrow> Blog \<Rightarrow> error option \<times> Blog \<times> Blog list" where
  "Blog_save table self =
     (if length table = 1 \<and> \<not> truthy_id (blog_id self)
      then (Some (Exception ''Only one blog object allowed.''), self, table)
      else (let (self', table') = Model_save blog_id Blog_set_id table self
            in (None, self', table')))"

subsection \<open>Strings\<close>

text \<open>
  A string is a list of characters, a character a code point below 256.
  \<open>isspace\<close> is \<^verbatim>\<open>unicode.isspace\<close> on that range; \<open>py_split\<close> is
  \<^verbatim>\<open>text.split()\<close> with no argument (runs of whitespace separate, no empty
  token is produced), written as the scan it is: \<open>cur\<close> holds the token being
  read, reversed. \<open>py_join\<close> is \<^verbatim>\<open>sep.join(xs)\<close>.
\<close>

definition isspace :: "char \<Rightarrow> bool" where
  "isspace c = (let n = (of_char c :: nat)
                in (9 \<le> n \<and> n \<le> 13) \<or> (28 \<le> n \<and> n \<le> 32) \<or> n = 133 \<or> n = 160)"

fun split_scan :: "string \<Rightarrow> string \<Rightarrow> string list" where
  "split_scan cur [] = (if cur = [] then [] else [rev cur])"
| "split_scan cur (c # cs) =
     (if isspace c
      then (if cur = [] then split_scan [] cs else rev cur # split_scan [] cs)
      else split_scan (c # cur) cs)"

definition py_split :: "string \<Rightarrow> string list" where
  "py_split text = split_scan [] text"

fun py_join :: "string \<Rightarrow> string list \<Rightarrow> string" where
  "py_join sep [] = []"
| "py_join sep [x] = x"
| "py_join sep (x # y # ys) = x @ sep @ py_join sep (y # ys)"

text \<open>\<^verbatim>\<open>"%s" % (i,)\<close>: the decimal digits of an integer, with its sign.\<close>

definition digit_char :: "nat \<Rightarrow> char" where
  "digit_char n = char_of (48 + n)"

fun digits :: "nat \<Rightarrow> string" where
  "digits n = (if n < 10 then [digit_char n] else digits (n div 10) @ [digit_char (n mod 10)])"

declare digits.simps [simp del]

definition str_int :: "int \<Rightarrow> string" where
  "str_int i = (if i < 0 then CHR ''-'' # digits (nat (- i)) else digits (nat i))"

text \<open>The module's helper methods.\<close>

definition infer_title_or_slug :: "string \<Rightarrow> string" where
  "infer_title_or_slug text = py_join ''-'' (take 5 (py_split text))"

definition generate_summary :: "string \<Rightarrow> string" where
  "generate_summary text = py_join '' '' (take 100 (py_split text))"

subsection \<open>Timestamps\<close>

text \<open>
  A naive \<^verbatim>\<open>datetime\<close> is a point of the proleptic Gregorian calendar at
  microsecond resolution: here the number of microseconds since
  0001-01-01 00:00:00, so that comparison is \<open>\<le>\<close> on numbers and a
  \<^verbatim>\<open>timedelta\<close> is a number of microseconds. \<open>year\<close> follows the standard
  library's conversion of a day ordinal to a date; \<open>mk_datetime\<close> builds a
  timestamp from its fields (which are taken to be in range).
\<close>

type_synonym datetime = nat

definition us_per_day :: nat where
  "us_per_day = 86400000000"

definition is_leap :: "nat \<Rightarrow> bool" where
  "is_leap y = (y mod 4 = 0 \<and> (y mod 100 \<noteq> 0 \<or> y mod 400 = 0))"

definition days_before_year :: "nat \<Rightarrow> nat" where
  "days_before_year y = (let p = y - 1 in p * 365 + p div 4 - p div 100 + p div 400)"

definition days_before_month :: "nat \<Rightarrow> nat \<Rightarrow> nat" where
  "days_before_month y m =
     sum_list (take (m - 1) [31, 28, 31, 30, 31, 30, 31, 31, 30, 31, 30, 31])
     + (if 2 < m \<and> is_leap y then 1 else 0)"

definition mk_datetime :: "nat \<Rightarrow> nat \<Rightarrow> nat \<Rightarrow> nat \<Rightarrow> nat \<Rightarrow> nat \<Rightarrow> nat \<Rightarrow> datetime" where
  "mk_datetime y m d hh mm ss us =
     (((days_before_year y + days_before_month y m + d - 1) * 24 + hh) * 3600 + mm * 60 + ss) * 1000000 + us"

definition ord2year :: "nat \<Rightarrow> nat" where
  "ord2year n =
     (let n0 = n - 1;
          n400 = n0 div 146097; r400 = n0 mod 146097;
          n100 = r400 div 36524; r100 = r400 mod 36524;
          n4 = r100 div 1461; r4 = r100 mod 1461;
          n1 = r4 div 365;
          y = n400 * 400 + 1 + n100 * 100 + n4 * 4 + n1
      in if n1 = 4 \<or> n100 = 4 then y - 1 else y)"

definition year :: "datetime \<Rightarrow> nat" where
  "year t = ord2year (t div us_per_day + 1)"

text \<open>\<^verbatim>\<open>datetime.max\<close> is 9999-12-31 23:59:59.999999.\<close>

definition datetime_max :: datetime where
  "datetime_max = mk_datetime 9999 12 31 23 59 59 999999"

text \<open>
  \<^verbatim>\<open>t - timedelta(days=n)\<close> raises \<^verbatim>\<open>OverflowError\<close> when the result would
  fall before year 1.
\<close>

definition minus_days :: "datetime \<Rightarrow> nat \<Rightarrow> error + datetime" where
  "minus_days t n = (if t < n * us_per_day then Inl OverflowError else Inr (t - n * us_per_day))"

subsection \<open>BlogEntry\<close>

text \<open>\<open>raw_text\<close> is \<^verbatim>\<open>self.text.raw\<close>, the raw source of the markup field.\<close>

record BlogEntry =
  pk :: "int option"
  title :: "string option"
  slug :: "string option"
  raw_text :: string
  summary :: "string option"
  created_on :: "datetime option"
  created_by :: int
  is_page :: bool
  is_published :: bool
  publish_date :: "datetime option"
  comments_allowed :: bool
  is_rte :: bool
  meta_keywords :: "string option"
  meta_description :: "string option"

definition BlogEntry_set_pk :: "int \<Rightarrow> BlogEntry \<Rightarrow> BlogEntry" where
  "BlogEntry_set_pk k e = e\<lparr>pk := Some k\<rparr>"

text \<open>
  \<^verbatim>\<open>BlogEntry.objects\<close> is the \<^verbatim>\<open>BlogPublishedManager\<close>: every query through
  it sees only the rows that are published with a publish date not after the
  current time (a null publish date never satisfies the comparison).
\<close>

definition BlogPublishedManager_get_queryset :: "datetime \<Rightarrow> BlogEntry list \<Rightarrow> BlogEntry list" where
  "BlogPublishedManager_get_queryset now table =
     filter (\<lambda>r. is_published r \<and> (case publish_date r of None \<Rightarrow> False | Some p \<Rightarrow> p \<le> now)) table"

definition create_slug :: "string \<Rightarrow> int \<Rightarrow> string" where
  "create_slug initial_slug i =
     (if \<not> i = 1 then initial_slug @ ''-'' @ str_int i else initial_slug)"

text \<open>
  The \<^verbatim>\<open>while True\<close> loop of \<^verbatim>\<open>BlogEntry.save\<close>; \<open>objects\<close> is the queryset of
  \<^verbatim>\<open>BlogEntry.objects\<close>. Excluding \<^verbatim>\<open>pk=None\<close> excludes no stored row.
  The loop returns \<open>None\<close> when it does not end.
\<close>

partial_function (option) slug_loop :: "BlogEntry list \<Rightarrow> int option \<Rightarrow> string \<Rightarrow> int \<Rightarrow> string option" where
  "slug_loop objects self_pk base i =
     (let created_slug = create_slug base i;
          slug_count = filter (\<lambda>r. pk r \<noteq> self_pk) (filter (\<lambda>r. slug r = Some created_slug) objects)
      in if slug_count = [] then Some created_slug
         else slug_loop objects self_pk base (i + 1))"

text \<open>Python's truth value of a string field: \<^verbatim>\<open>None\<close> and \<^verbatim>\<open>''\<close> are false.\<close>

definition blank :: "string option \<Rightarrow> bool" where
  "blank s = (s = None \<or> s = Some [])"

text \<open>
  \<^verbatim>\<open>BlogEntry.save\<close>. \<open>slugify\<close> is the framework's template filter, taken as
  a parameter; \<open>now\<close> is the clock read by the manager's query. The result is
  \<open>None\<close> when the slug loop does not end.
\<close>

definition BlogEntry_save ::
  "(string \<Rightarrow> string) \<Rightarrow> datetime \<Rightarrow> BlogEntry list \<Rightarrow> BlogEntry
     \<Rightarrow> (error option \<times> BlogEntry \<times> BlogEntry list) option" where
  "BlogEntry_save slugify now table self =
     (let title1 = (case title self of
                      None \<Rightarrow> infer_title_or_slug (raw_text self)
                    | Some t \<Rightarrow> if t = [] then infer_title_or_slug (raw_text self) else t);
          slug1 = (case slug self of
                     None \<Rightarrow> slugify title1
                   | Some s \<Rightarrow> if s = [] then slugify title1 else s)
      in case slug_loop (BlogPublishedManager_get_queryset now table) (pk self) slug1 1 of
           None \<Rightarrow> None
         | Some created_slug \<Rightarrow>
             (let self1 = self\<lparr>title := Some title1, slug := Some created_slug\<rparr>;
                  self2 = (if blank (summary self1)
                           then self1\<lparr>summary := Some (generate_summary (raw_text self1))\<rparr>
                           else self1);
                  self3 = (if blank (meta_keywords self2)
                           then self2\<lparr>meta_keywords := summary self2\<rparr> else self2);
                  self4 = (if blank (meta_description self3)
                           then self3\<lparr>meta_description := summary self3\<rparr> else self3)
              in if is_published self4
                 then (case created_on self4 of
                         None \<Rightarrow> Some (Some AttributeError, self4, table)
                       | Some c \<Rightarrow>
                           (let self5 = (if year c = 9999
                                         then self4\<lparr>created_on := publish_date self4\<rparr>
                                         else self4);
                                (self', table') = Model_save pk BlogEntry_set_pk table self5
                            in Some (None, self', table')))
                 else (let (self', table') = Model_save pk BlogEntry_set_pk table self4
                       in Some (None, self', table'))))"

text \<open>
  The framework's \<^verbatim>\<open>slugify\<close> on ASCII text, used where an example needs a
  concrete slugifier: drop every character that is not a letter, a digit, an
  underscore, a hyphen or whitespace; strip; lower-case; replace every run of
  hyphens and whitespace by one hyphen. \<open>BlogEntry_save\<close> itself takes the
  slugifier as a parameter.
\<close>

definition re_word :: "char \<Rightarrow> bool" where
  "re_word c = (let n = (of_char c :: nat)
                in (48 \<le> n \<and> n \<le> 57) \<or> (65 \<le> n \<and> n \<le> 90) \<or> n = 95 \<or> (97 \<le> n \<and> n \<le> 122))"

definition re_space :: "char \<Rightarrow> bool" where
  "re_space c = (let n = (of_char c :: nat) in (9 \<le> n \<and> n \<le> 13) \<or> n = 32)"

definition lower :: "char \<Rightarrow> char" where
  "lower c = (let n = (of_char c :: nat) in if 65 \<le> n \<and> n \<le> 90 then char_of (n + 32) else c)"

definition strip :: "string \<Rightarrow> string" where
  "strip s = rev (dropWhile isspace (rev (dropWhile isspace s)))"

fun collapse_runs :: "bool \<Rightarrow> string \<Rightarrow> string" where
  "collapse_runs in_run [] = []"
| "collapse_runs in_run (c # cs) =
     (if c = CHR ''-'' \<or> re_space c
      then (if in_run then collapse_runs True cs else CHR ''-'' # collapse_runs True cs)
      else c # collapse_runs False cs)"

definition slugify_ascii :: "string \<Rightarrow> string" where
  "slugify_ascii v =
     collapse_runs False
       (map lower (strip (filter (\<lambda>c. re_word c \<or> re_space c \<or> c = CHR ''-'') v)))"

subsection \<open>Comment\<close>

text \<open>
  \<open>comment_for\<close> is the key of the entry the comment belongs to.
  \<open>comment_created_on\<close> is declared \<^verbatim>\<open>auto_now_add\<close>: the storage layer
  sets it to the current time when the row is inserted.
\<close>

record Comment =
  comment_id :: "int option"
  comment_text :: string
  comment_for :: int
  comment_created_on :: datetime
  user_name :: string
  user_url :: string
  comment_created_by :: "int option"
  email_id :: string
  is_spam :: bool
  is_public :: "bool option"
  user_ip :: "string option"
  user_agent :: string

definition Comment_set_id :: "int \<Rightarrow> Comment \<Rightarrow> Comment" where
  "Comment_set_id k c = c\<lparr>comment_id := Some k\<rparr>"

text \<open>\<^verbatim>\<open>Comment.objects\<close> is the \<^verbatim>\<open>CommentManager\<close>.\<close>

definition CommentManager_get_queryset :: "Comment list \<Rightarrow> Comment list" where
  "CommentManager_get_queryset table = filter (\<lambda>c. is_public c = Some True) table"

definition Comment_save :: "datetime \<Rightarrow> Comment list \<Rightarrow> Comment \<Rightarrow> Comment \<times> Comment list" where
  "Comment_save now table self =
     (let self1 = (if is_spam self then self\<lparr>is_public := Some False\<rparr> else self);
          adding = (case comment_id self1 of
                      None \<Rightarrow> True
                    | Some k \<Rightarrow> Some k \<notin> set (map comment_id table));
          self2 = (if adding then self1\<lparr>comment_created_on := now\<rparr> else self1)
      in Model_save comment_id Comment_set_id table self2)"

text \<open>
  The query helpers of \<^verbatim>\<open>BlogEntry\<close>. \<^verbatim>\<open>comment_for=self\<close> compares the
  comment's entry key with the key of \<open>self\<close>. \<^verbatim>\<open>order_by('-created_on')\<close>
  sorts by descending creation time.
\<close>

definition get_num_comments :: "Comment list \<Rightarrow> BlogEntry \<Rightarrow> nat" where
  "get_num_comments table self =
     length (filter (\<lambda>c. Some (comment_for c) = pk self \<and> is_spam c = False)
               (CommentManager_get_queryset table))"

definition order_by_desc :: "('r \<Rightarrow> nat) \<Rightarrow> 'r list \<Rightarrow> 'r list" where
  "order_by_desc key rows = rev (sort_key key rows)"

definition get_recent_comments :: "datetime \<Rightarrow> Comment list \<Rightarrow> BlogEntry \<Rightarrow> error + Comment list" where
  "get_recent_comments now table self =
     (case minus_days now 1 of
        Inl e \<Rightarrow> Inl e
      | Inr yesterday \<Rightarrow>
          Inr (order_by_desc comment_created_on
                 (filter (\<lambda>c. Some (comment_for c) = pk self \<and> is_spam c = False
                               \<and> yesterday < comment_created_on c)
                    (CommentManager_get_queryset table))))"

subsection \<open>Specification vocabulary\<close>

text \<open>
  A candidate slug is taken when a row the slug query can see, other than the
  entry itself, holds it.
\<close>

definition slug_taken :: "BlogEntry list \<Rightarrow> int option \<Rightarrow> string \<Rightarrow> bool" where
  "slug_taken objects self_pk s = (\<exists>r \<in> set objects. slug r = Some s \<and> pk r \<noteq> self_pk)"

text \<open>
  The whitespace-separated tokens of a text, in the specification's words: cut the
  text at every whitespace character and keep the pieces that are not empty.
\<close>

fun fields :: "string \<Rightarrow> string list" where
  "fields [] = [[]]"
| "fields (c # cs) =
     (if isspace c then [] # fields cs
      else (case fields cs of [] \<Rightarrow> [[c]] | t # ts \<Rightarrow> (c # t) # ts))"

definition whitespace_tokens :: "string \<Rightarrow> string list" where
  "whitespace_tokens text = filter (\<lambda>t. t \<noteq> []) (fields text)"

text \<open>
  An entry as the model's constructor makes it from a title, a raw text, the
  published flag and a publish date: every other field has its declared default
  (\<open>created_on\<close> is \<^verbatim>\<open>datetime.max\<close>, a character field is empty, a nullable
  field is null).
\<close>

definition new_entry :: "string \<Rightarrow> string \<Rightarrow> bool \<Rightarrow> datetime option \<Rightarrow> BlogEntry" where
  "new_entry t raw published pd =
     \<lparr>pk = None, title = Some t, slug = Some [], raw_text = raw, summary = Some [],
      created_on = Some datetime_max, created_by = 1, is_page = False,
      is_published = published, publish_date = pd, comments_allowed = True,
      is_rte = False, meta_keywords = None, meta_description = None\<rparr>"

text \<open>
  A comment as a caller submits it for an entry: text, spam flag and public flag;
  the key and the creation time are set by the storage layer.
\<close>

definition new_comment :: "int \<Rightarrow> string \<Rightarrow> bool \<Rightarrow> bool option \<Rightarrow> Comment" where
  "new_comment entry_pk t spam public =
     \<lparr>comment_id = None, comment_text = t, comment_for = entry_pk, comment_created_on = 0,
      user_name = ''ann'', user_url = ''http://example.org/'', comment_created_by = None,
      email_id = ''ann@example.org'', is_spam = spam, is_public = public,
      user_ip = None, user_agent = []\<rparr>"

text \<open>Saving a list of entries one after the other; \<open>None\<close> if a save raises.\<close>

fun save_all ::
  "(string \<Rightarrow> string) \<Rightarrow> datetime \<Rightarrow> BlogEntry list \<Rightarrow> BlogEntry list \<Rightarrow> BlogEntry list option" where
  "save_all slugify now table [] = Some table"
| "save_all slugify now table (e # es) =
     (case BlogEntry_save slugify now table e of
        Some (None, _, table') \<Rightarrow> save_all slugify now table' es
      | _ \<Rightarrow> None)"

section \<open>Properties\<close>

subsection \<open>The slug loop ends\<close>

text \<open>
  Decimal numerals are injective, so the candidates \<open>base\<close>, \<open>base-2\<close>,
  \<open>base-3\<close>, ... are pairwise different and only finitely many of them are taken:
  the loop returns the first candidate that is not.
\<close>

lemma of_char_digit_char: "a < 10 \<Longrightarrow> (of_char (digit_char a) :: nat) = 48 + a"
  by (simp add: digit_char_def)

lemma digit_char_inj: "a < 10 \<Longrightarrow> b < 10 \<Longrightarrow> digit_char a = digit_char b \<Longrightarrow> a = b"
proof -
  assume a: "a < 10" and b: "b < 10" and e: "digit_char a = digit_char b"
  from e have "(of_char (digit_char a) :: nat) = of_char (digit_char b)" by simp
  with a b show "a = b" by (simp add: of_char_digit_char)
qed

lemma digits_nonempty: "digits n \<noteq> []"
  by (subst digits.simps) simp

lemma digits_inj: "digits m = digits n \<Longrightarrow> m = n"
proof (induction m arbitrary: n rule: digits.induct)
  case (1 m)
  show ?case
  proof (cases "m < 10")
    case True
    show ?thesis
    proof (cases "n < 10")
      case nT: True
      from "1.prems" True nT have "digit_char m = digit_char n"
        by (simp add: digits.simps)
      with True nT show ?thesis by (simp add: digit_char_inj)
    next
      case False
      from "1.prems" True False have "[digit_char m] = digits (n div 10) @ [digit_char (n mod 10)]"
        by (simp add: digits.simps[of m] digits.simps[of n])
      then have "digits (n div 10) = []" by simp
      then show ?thesis by (simp add: digits_nonempty)
    qed
  next
    case False
    show ?thesis
    proof (cases "n < 10")
      case True
      from "1.prems" True False have "digits (m div 10) @ [digit_char (m mod 10)] = [digit_char n]"
        by (simp add: digits.simps[of m] digits.simps[of n])
      then have "digits (m div 10) = []" by simp
      then show ?thesis by (simp add: digits_nonempty)
    next
      case nF: False
      from "1.prems" False nF
      have eq: "digits (m div 10) @ [digit_char (m mod 10)] = digits (n div 10) @ [digit_char (n mod 10)]"
        by (simp add: digits.simps[of m] digits.simps[of n])
      then have "digits (m div 10) = digits (n div 10)" and dc: "digit_char (m mod 10) = digit_char (n mod 10)"
        by simp_all
      with "1.IH"[OF False] have d: "m div 10 = n div 10" by blast
      have "m mod 10 = n mod 10"
        by (rule digit_char_inj[OF _ _ dc]) simp_all
      with d show ?thesis by (metis div_mult_mod_eq)
    qed
  qed
qed

lemma create_slug_inj: "1 \<le> i \<Longrightarrow> 1 \<le> j \<Longrightarrow> create_slug base i = create_slug base j \<Longrightarrow> i = j"
  by (auto simp: create_slug_def str_int_def split: if_splits dest!: digits_inj)

lemma slug_loop_step:
  "slug_loop objects p base i =
     (if slug_taken objects p (create_slug base i) then slug_loop objects p base (i + 1)
      else Some (create_slug base i))"
  by (subst slug_loop.simps) (auto simp: slug_taken_def Let_def filter_empty_conv)

lemma taken_bounded:
  "\<exists>B. \<forall>j\<ge>B. \<not> slug_taken objects p (create_slug base j)"
proof -
  let ?J = "{j. 1 \<le> j \<and> slug_taken objects p (create_slug base j)}"
  have "?J \<subseteq> (\<lambda>j. Some (create_slug base j)) -` (slug ` set objects) \<inter> {1..}"
    by (auto simp: slug_taken_def) (metis imageI)
  moreover have "inj_on (\<lambda>j. Some (create_slug base j)) {1..}"
    by (auto simp: inj_on_def dest: create_slug_inj)
  ultimately have fin: "finite ?J"
    by (meson finite_imageI finite_set finite_subset finite_vimage_IntI)
  show ?thesis
  proof (cases "?J = {}")
    case True
    then have "\<forall>j\<ge>1. \<not> slug_taken objects p (create_slug base j)" by auto
    then show ?thesis by blast
  next
    case False
    have "\<forall>j\<ge>Max ?J + 1. \<not> slug_taken objects p (create_slug base j)"
    proof (intro allI impI notI)
      fix j assume j: "Max ?J + 1 \<le> j" and t: "slug_taken objects p (create_slug base j)"
      from False fin have "1 \<le> Max ?J" using Max_in by blast
      with j t have "j \<in> ?J" by simp
      with fin have "j \<le> Max ?J" by (simp only: Max_ge)
      with j show False by simp
    qed
    then show ?thesis by blast
  qed
qed

lemma slug_loop_result:
  assumes "1 \<le> i"
  shows "\<exists>k\<ge>i. slug_loop objects p base i = Some (create_slug base k)
           \<and> \<not> slug_taken objects p (create_slug base k)
           \<and> (\<forall>j. i \<le> j \<and> j < k \<longrightarrow> slug_taken objects p (create_slug base j))"
proof -
  obtain B where B: "\<forall>j\<ge>B. \<not> slug_taken objects p (create_slug base j)"
    using taken_bounded by blast
  show ?thesis using assms
  proof (induction "nat (B - i)" arbitrary: i rule: less_induct)
    case less
    show ?case
    proof (cases "slug_taken objects p (create_slug base i)")
      case False
      then have "slug_loop objects p base i = Some (create_slug base i)"
        by (simp add: slug_loop_step)
      with False show ?thesis by (intro exI[of _ i]) auto
    next
      case True
      with B have "i < B" by (meson not_le)
      then have "nat (B - (i + 1)) < nat (B - i)" by simp
      moreover from less.prems have "1 \<le> i + 1" by simp
      ultimately obtain k where k: "i + 1 \<le> k"
          "slug_loop objects p base (i + 1) = Some (create_slug base k)"
          "\<not> slug_taken objects p (create_slug base k)"
          "\<forall>j. i + 1 \<le> j \<and> j < k \<longrightarrow> slug_taken objects p (create_slug base j)"
        using less.hyps by blast
      from True k(2) have "slug_loop objects p base i = Some (create_slug base k)"
        by (simp add: slug_loop_step)
      moreover have "\<forall>j. i \<le> j \<and> j < k \<longrightarrow> slug_taken objects p (create_slug base j)"
      proof (intro allI impI)
        fix j assume "i \<le> j \<and> j < k"
        then have "j = i \<or> (i + 1 \<le> j \<and> j < k)" by linarith
        with True k(4) show "slug_taken objects p (create_slug base j)" by blast
      qed
      ultimately show ?thesis using k(1,3) by (intro exI[of _ k]) simp
    qed
  qed
qed

lemma slug_loop_not_None: "slug_loop objects p base 1 \<noteq> None"
  using slug_loop_result[of 1 objects p base] by auto

subsection \<open>Splitting at whitespace\<close>

text \<open>The scan of \<open>py_split\<close> yields the whitespace-separated tokens.\<close>

lemma fields_nonempty: "fields s \<noteq> []"
  by (induction s) (auto split: list.splits)

lemma split_scan_fields:
  "split_scan cur s =
     filter (\<lambda>t. t \<noteq> []) (case fields s of [] \<Rightarrow> [rev cur] | t # ts \<Rightarrow> (rev cur @ t) # ts)"
proof (induction s arbitrary: cur)
  case Nil
  show ?case by simp
next
  case (Cons c cs)
  show ?case
  proof (cases "isspace c")
    case True
    have "split_scan [] cs = filter (\<lambda>t. t \<noteq> []) (fields cs)"
      using Cons.IH[of "[]"] fields_nonempty[of cs] by (simp split: list.splits)
    with True show ?thesis by simp
  next
    case False
    obtain t ts where f: "fields cs = t # ts"
      using fields_nonempty[of cs] by (cases "fields cs") auto
    with False Cons.IH[of "c # cur"] show ?thesis by simp
  qed
qed

lemma py_split_tokens: "py_split s = whitespace_tokens s"
  using split_scan_fields[of "[]" s] fields_nonempty[of s]
  by (simp add: py_split_def whitespace_tokens_def split: list.splits)

subsection \<open>The storage layer\<close>

text \<open>
  The automatic key is new, and the object that \<open>Model_save\<close> returns is the row
  that its key finds in the table afterwards.
\<close>

lemma next_pk_ge: "Some j \<in> set ks \<Longrightarrow> j < next_pk ks"
proof -
  have "\<And>m. Some j \<in> set ks \<Longrightarrow> j \<le> fold (\<lambda>k m. case k of None \<Rightarrow> m | Some j \<Rightarrow> max j m) ks m"
   and "\<And>m. m \<le> fold (\<lambda>k m. case k of None \<Rightarrow> m | Some j \<Rightarrow> max j m) ks (m::int)"
  proof (induction ks)
    case Nil
    { case 1 then show ?case by simp }
    { case 2 show ?case by simp }
  next
    case (Cons a ks)
    { case 2 show ?case using Cons.IH(2)[of "case a of None \<Rightarrow> m | Some j \<Rightarrow> max j m"]
        by (cases a) auto }
    note mono = this
    { case 1 then show ?case
        using Cons.IH(1)[of "case a of None \<Rightarrow> m | Some j \<Rightarrow> max j m"]
              Cons.IH(2)[of "case a of None \<Rightarrow> m | Some j \<Rightarrow> max j m"]
        by (cases a) auto }
  qed
  then show "Some j \<in> set ks \<Longrightarrow> j < next_pk ks" by (simp add: next_pk_def less_Suc_eq_le)
qed

lemma next_pk_fresh: "Some (next_pk ks) \<notin> set ks"
  using next_pk_ge[of "next_pk ks" ks] by auto

lemma find_map_replace:
  "key self = Some k \<Longrightarrow> Some k \<in> key ` set table \<Longrightarrow>
   find (\<lambda>r. key r = Some k) (map (\<lambda>r. if key r = Some k then self else r) table) = Some self"
  by (induction table) auto

lemma find_append_new:
  "k \<notin> key ` set table \<Longrightarrow> key self = k \<Longrightarrow>
   find (\<lambda>r. key r = k) (table @ [self]) = Some self"
  by (induction table) auto

lemma Model_save_get_row:
  assumes "\<And>k r. key (set_key k r) = Some k"
      and "Model_save key set_key table self = (self', table')"
  shows "get_row key table' (key self') = Some self'"
proof (cases "key self")
  case None
  with assms(2) have s: "self' = set_key (next_pk (map key table)) self" "table' = table @ [self']"
    by (auto simp: Model_save_def Let_def)
  have "key self' = Some (next_pk (map key table))" using s assms(1) by simp
  moreover have "Some (next_pk (map key table)) \<notin> key ` set table"
    using next_pk_fresh[of "map key table"] by simp
  ultimately show ?thesis using s(2) by (simp add: get_row_def find_append_new)
next
  case (Some k)
  show ?thesis
  proof (cases "Some k \<in> key ` set table")
    case True
    with Some assms(2) have "self' = self" "table' = map (\<lambda>r. if key r = Some k then self else r) table"
      by (auto simp: Model_save_def)
    with Some True show ?thesis by (simp add: get_row_def find_map_replace)
  next
    case False
    with Some assms(2) have "self' = self" "table' = table @ [self]"
      by (auto simp: Model_save_def)
    with Some False show ?thesis by (simp add: get_row_def find_append_new)
  qed
qed

lemmas timestamp_defs = year_def ord2year_def datetime_max_def mk_datetime_def
  days_before_year_def days_before_month_def is_leap_def us_per_day_def Let_def

lemmas slugify_defs = slugify_ascii_def strip_def isspace_def re_word_def re_space_def
  lower_def char_of_eq_iff

lemma year_datetime_max: "year datetime_max = 9999"
  by (simp add: timestamp_defs)

lemma Model_save_fst:
  "\<exists>k. fst (Model_save pk BlogEntry_set_pk table x) = x\<lparr>pk := k\<rparr>"
proof (cases "pk x")
  case None
  then have "fst (Model_save pk BlogEntry_set_pk table x) = x\<lparr>pk := Some (next_pk (map pk table))\<rparr>"
    by (simp add: Model_save_def BlogEntry_set_pk_def Let_def)
  then show ?thesis by blast
next
  case (Some k)
  then have "fst (Model_save pk BlogEntry_set_pk table x) = x" by (simp add: Model_save_def)
  then have "fst (Model_save pk BlogEntry_set_pk table x) = x\<lparr>pk := pk x\<rparr>" by simp
  then show ?thesis by blast
qed

lemma BlogEntry_get_row_saved:
  "Model_save pk BlogEntry_set_pk table x = (x', table') \<Longrightarrow> get_row pk table' (pk x') = Some x'"
  by (rule Model_save_get_row[where set_key = BlogEntry_set_pk]) (simp_all add: BlogEntry_set_pk_def)

lemma Model_save_entry:
  "\<exists>e' table'. Model_save pk BlogEntry_set_pk table x = (e', table')
      \<and> get_row pk table' (pk e') = Some e'
      \<and> title e' = title x \<and> slug e' = slug x \<and> created_on e' = created_on x"
proof -
  obtain e' table' where m: "Model_save pk BlogEntry_set_pk table x = (e', table')"
    by (cases "Model_save pk BlogEntry_set_pk table x") blast
  obtain k where "fst (Model_save pk BlogEntry_set_pk table x) = x\<lparr>pk := k\<rparr>"
    using Model_save_fst by blast
  with m have "e' = x\<lparr>pk := k\<rparr>" by simp
  then have "title e' = title x \<and> slug e' = slug x \<and> created_on e' = created_on x" by simp
  with m BlogEntry_get_row_saved[OF m] show ?thesis by blast
qed

subsection \<open>The shape of an entry save\<close>

text \<open>
  Every save of an entry returns. It raises only when the entry is published and
  its \<open>created_on\<close> is \<^verbatim>\<open>None\<close>; otherwise the derived object goes to the
  storage layer, with \<open>created_on\<close> replaced by the publish date when the entry is
  published and \<open>created_on\<close> is in year 9999.
\<close>

lemma BlogEntry_save_shape:
  "\<exists>cs self4.
     slug_loop (BlogPublishedManager_get_queryset now table) (pk e)
       (case slug e of
          None \<Rightarrow> slugify (case title e of None \<Rightarrow> infer_title_or_slug (raw_text e)
                     | Some t \<Rightarrow> if t = [] then infer_title_or_slug (raw_text e) else t)
        | Some s \<Rightarrow> if s = [] then slugify (case title e of None \<Rightarrow> infer_title_or_slug (raw_text e)
                     | Some t \<Rightarrow> if t = [] then infer_title_or_slug (raw_text e) else t) else s) 1 = Some cs
     \<and> title self4 = Some (case title e of None \<Rightarrow> infer_title_or_slug (raw_text e)
                     | Some t \<Rightarrow> if t = [] then infer_title_or_slug (raw_text e) else t)
     \<and> slug self4 = Some cs
     \<and> pk self4 = pk e \<and> created_on self4 = created_on e
     \<and> is_published self4 = is_published e \<and> publish_date self4 = publish_date e
     \<and> raw_text self4 = raw_text e
     \<and> BlogEntry_save slugify now table e =
        (if is_published e
         then (case created_on e of
                 None \<Rightarrow> Some (Some AttributeError, self4, table)
               | Some c \<Rightarrow>
                   Some (None, Model_save pk BlogEntry_set_pk table
                           (if year c = 9999 then self4\<lparr>created_on := publish_date e\<rparr> else self4)))
         else Some (None, Model_save pk BlogEntry_set_pk table self4))"
proof -
  let ?title1 = "case title e of None \<Rightarrow> infer_title_or_slug (raw_text e)
                     | Some t \<Rightarrow> if t = [] then infer_title_or_slug (raw_text e) else t"
  let ?slug1 = "case slug e of None \<Rightarrow> slugify ?title1 | Some s \<Rightarrow> if s = [] then slugify ?title1 else s"
  obtain cs where cs: "slug_loop (BlogPublishedManager_get_queryset now table) (pk e) ?slug1 1 = Some cs"
    using slug_loop_not_None by blast
  define self1 where "self1 = e\<lparr>title := Some ?title1, slug := Some cs\<rparr>"
  define self2 where "self2 = (if blank (summary self1)
                           then self1\<lparr>summary := Some (generate_summary (raw_text self1))\<rparr>
                           else self1)"
  define self3 where "self3 = (if blank (meta_keywords self2)
                           then self2\<lparr>meta_keywords := summary self2\<rparr> else self2)"
  define self4 where "self4 = (if blank (meta_description self3)
                           then self3\<lparr>meta_description := summary self3\<rparr> else self3)"
  have f: "title self4 = Some ?title1" "slug self4 = Some cs" "pk self4 = pk e"
      "created_on self4 = created_on e" "is_published self4 = is_published e"
      "publish_date self4 = publish_date e" "raw_text self4 = raw_text e"
    by (simp_all add: self4_def self3_def self2_def self1_def)
  have "BlogEntry_save slugify now table e =
        (if is_published e
         then (case created_on e of
                 None \<Rightarrow> Some (Some AttributeError, self4, table)
               | Some c \<Rightarrow>
                   Some (None, Model_save pk BlogEntry_set_pk table
                           (if year c = 9999 then self4\<lparr>created_on := publish_date e\<rparr> else self4)))
         else Some (None, Model_save pk BlogEntry_set_pk table self4))"
    unfolding BlogEntry_save_def Let_def cs option.case
      self1_def[symmetric] self2_def[symmetric] self3_def[symmetric] self4_def[symmetric] f
    by (simp split: option.split prod.split)
  with cs f show ?thesis by blast
qed

text \<open>
  What the slug loop achieves: the slug an entry leaves the save with is the first of
  the candidates \<open>base\<close>, \<open>base-2\<close>, \<open>base-3\<close>, ... that no other row visible to
  the slug query holds.
\<close>

lemma BlogEntry_save_slug_first_free:
  "\<exists>err e' table' base k.
      BlogEntry_save slugify now table e = Some (err, e', table')
      \<and> base = (case slug e of
                  None \<Rightarrow> slugify (case title e of None \<Rightarrow> infer_title_or_slug (raw_text e)
                     | Some t \<Rightarrow> if t = [] then infer_title_or_slug (raw_text e) else t)
                | Some s \<Rightarrow> if s = [] then slugify (case title e of None \<Rightarrow> infer_title_or_slug (raw_text e)
                     | Some t \<Rightarrow> if t = [] then infer_title_or_slug (raw_text e) else t) else s)
      \<and> 1 \<le> k \<and> slug e' = Some (create_slug base k)
      \<and> \<not> slug_taken (BlogPublishedManager_get_queryset now table) (pk e) (create_slug base k)
      \<and> (\<forall>j. 1 \<le> j \<and> j < k \<longrightarrow>
             slug_taken (BlogPublishedManager_get_queryset now table) (pk e) (create_slug base j))"
proof -
  let ?base = "case slug e of
                  None \<Rightarrow> slugify (case title e of None \<Rightarrow> infer_title_or_slug (raw_text e)
                     | Some t \<Rightarrow> if t = [] then infer_title_or_slug (raw_text e) else t)
                | Some s \<Rightarrow> if s = [] then slugify (case title e of None \<Rightarrow> infer_title_or_slug (raw_text e)
                     | Some t \<Rightarrow> if t = [] then infer_title_or_slug (raw_text e) else t) else s"
  let ?objs = "BlogPublishedManager_get_queryset now table"
  obtain cs self4 where cs: "slug_loop ?objs (pk e) ?base 1 = Some cs"
    and s4: "slug self4 = Some cs"
    and sv: "BlogEntry_save slugify now table e =
        (if is_published e
         then (case created_on e of
                 None \<Rightarrow> Some (Some AttributeError, self4, table)
               | Some c \<Rightarrow>
                   Some (None, Model_save pk BlogEntry_set_pk table
                           (if year c = 9999 then self4\<lparr>created_on := publish_date e\<rparr> else self4)))
         else Some (None, Model_save pk BlogEntry_set_pk table self4))"
    using BlogEntry_save_shape[of now table e slugify] by blast
  obtain k where k: "1 \<le> k" "slug_loop ?objs (pk e) ?base 1 = Some (create_slug ?base k)"
      "\<not> slug_taken ?objs (pk e) (create_slug ?base k)"
      "\<forall>j. 1 \<le> j \<and> j < k \<longrightarrow> slug_taken ?objs (pk e) (create_slug ?base j)"
    using slug_loop_result[of 1 ?objs "pk e" ?base] by auto
  from cs k(2) have c: "cs = create_slug ?base k" by simp
  have "\<exists>err e' table'. BlogEntry_save slugify now table e = Some (err, e', table')
          \<and> slug e' = Some cs"
  proof (cases "is_published e")
    case False
    with sv s4 Model_save_entry[of table self4] show ?thesis by auto
  next
    case True
    show ?thesis
    proof (cases "created_on e")
      case None
      with True sv s4 show ?thesis by auto
    next
      case (Some c')
      have "slug (if year c' = 9999 then self4\<lparr>created_on := publish_date e\<rparr> else self4) = Some cs"
        using s4 by simp
      with True Some sv
        Model_save_entry[of table "if year c' = 9999 then self4\<lparr>created_on := publish_date e\<rparr> else self4"]
      show ?thesis by auto
    qed
  qed
  with c k(1,3,4) show ?thesis by blast
qed

subsection \<open>Comments\<close>

lemma Comment_saved:
  "\<exists>c' table'. Model_save comment_id Comment_set_id table x = (c', table')
      \<and> get_row comment_id table' (comment_id c') = Some c'
      \<and> is_public c' = is_public x \<and> is_spam c' = is_spam x"
proof -
  obtain c' table' where m: "Model_save comment_id Comment_set_id table x = (c', table')"
    by (cases "Model_save comment_id Comment_set_id table x") blast
  have g: "get_row comment_id table' (comment_id c') = Some c'"
    by (rule Model_save_get_row[where set_key = Comment_set_id, OF _ m]) (simp add: Comment_set_id_def)
  from m have "is_public c' = is_public x \<and> is_spam c' = is_spam x"
    by (auto simp: Model_save_def Comment_set_id_def Let_def split: option.splits if_splits)
  with m g show ?thesis by blast
qed

lemma recent_filter:
  "filter (\<lambda>c. Some (comment_for c) = pk e \<and> \<not> is_spam c \<and> y < comment_created_on c)
     (filter (\<lambda>c. is_public c = Some True) table)
   = filter (\<lambda>c. Some (comment_for c) = pk e \<and> is_public c = Some True
                     \<and> \<not> is_spam c \<and> y < comment_created_on c) table"
  by (induction table) auto

subsection \<open>Worked examples\<close>

text \<open>
  Saves evaluated on concrete entries, with the ASCII slugifier. The claims below
  use them as witnesses and as failing inputs.
\<close>

lemmas entry_save_defs = BlogEntry_save_def new_entry_def BlogPublishedManager_get_queryset_def
  blank_def Model_save_def BlogEntry_set_pk_def next_pk_def Let_def

lemmas slug_loop_defs = slug_loop_step slug_taken_def create_slug_def str_int_def
  digits.simps digit_char_def char_of_eq_iff new_entry_def

lemma slugify_hello_world: "slugify_ascii ''Hello World'' = ''hello-world''"
  by (simp add: slugify_defs)

lemma summary_first_draft: "generate_summary ''first draft'' = ''first draft''"
  by (simp add: generate_summary_def py_split_def isspace_def)

lemma summary_second_text: "generate_summary ''second text'' = ''second text''"
  by (simp add: generate_summary_def py_split_def isspace_def)

lemma slug_loop_empty: "slug_loop [] p base 1 = Some base"
  by (simp add: slug_loop_step slug_taken_def create_slug_def)

lemma year_2020: "year (mk_datetime 2020 3 2 0 0 0 0) = 2020"
  by (simp add: timestamp_defs)

lemma year_9999: "year (mk_datetime 9999 2 2 0 0 0 0) = 9999"
  by (simp add: timestamp_defs)

lemma save_blank_title:
  "BlogEntry_save slugify_ascii (mk_datetime 2020 3 3 0 0 0 0) []
     (new_entry [] ''one two three four five six seven'' True
        (Some (mk_datetime 2020 3 2 0 0 0 0)))
   = Some (None,
       (new_entry ''one-two-three-four-five'' ''one two three four five six seven'' True
          (Some (mk_datetime 2020 3 2 0 0 0 0)))
         \<lparr>pk := Some 1, slug := Some ''one-two-three-four-five'',
          summary := Some ''one two three four five six seven'',
          meta_keywords := Some ''one two three four five six seven'',
          meta_description := Some ''one two three four five six seven'',
          created_on := Some (mk_datetime 2020 3 2 0 0 0 0)\<rparr>,
       [(new_entry ''one-two-three-four-five'' ''one two three four five six seven'' True
          (Some (mk_datetime 2020 3 2 0 0 0 0)))
         \<lparr>pk := Some 1, slug := Some ''one-two-three-four-five'',
          summary := Some ''one two three four five six seven'',
          meta_keywords := Some ''one two three four five six seven'',
          meta_description := Some ''one two three four five six seven'',
          created_on := Some (mk_datetime 2020 3 2 0 0 0 0)\<rparr>])"
proof -
  have t: "infer_title_or_slug ''one two three four five six seven'' = ''one-two-three-four-five''"
    by (simp add: infer_title_or_slug_def py_split_def isspace_def)
  have g: "generate_summary ''one two three four five six seven''
             = ''one two three four five six seven''"
    by (simp add: generate_summary_def py_split_def isspace_def)
  have s: "slugify_ascii ''one-two-three-four-five'' = ''one-two-three-four-five''"
    by (simp add: slugify_defs)
  show ?thesis
    by (simp add: entry_save_defs t g s slug_loop_empty year_datetime_max)
qed

lemma save_hello_draft:
  "BlogEntry_save slugify_ascii (mk_datetime 2020 3 3 0 0 0 0) []
     (new_entry ''Hello World'' ''first draft'' False None)
   = Some (None,
       (new_entry ''Hello World'' ''first draft'' False None)
         \<lparr>pk := Some 1, slug := Some ''hello-world'', summary := Some ''first draft'',
          meta_keywords := Some ''first draft'', meta_description := Some ''first draft''\<rparr>,
       [(new_entry ''Hello World'' ''first draft'' False None)
         \<lparr>pk := Some 1, slug := Some ''hello-world'', summary := Some ''first draft'',
          meta_keywords := Some ''first draft'', meta_description := Some ''first draft''\<rparr>])"
  by (simp add: entry_save_defs slugify_hello_world summary_first_draft slug_loop_empty)

lemma save_hello_post:
  "BlogEntry_save slugify_ascii (mk_datetime 2020 3 3 0 0 0 0)
     [(new_entry ''Hello World'' ''first draft'' False None)
         \<lparr>pk := Some 1, slug := Some ''hello-world'', summary := Some ''first draft'',
          meta_keywords := Some ''first draft'', meta_description := Some ''first draft''\<rparr>]
     (new_entry ''Hello World'' ''second text'' True (Some (mk_datetime 2020 3 2 0 0 0 0)))
   = Some (None,
       (new_entry ''Hello World'' ''second text'' True (Some (mk_datetime 2020 3 2 0 0 0 0)))
         \<lparr>pk := Some 2, slug := Some ''hello-world'', summary := Some ''second text'',
          meta_keywords := Some ''second text'', meta_description := Some ''second text'',
          created_on := Some (mk_datetime 2020 3 2 0 0 0 0)\<rparr>,
       [(new_entry ''Hello World'' ''first draft'' False None)
         \<lparr>pk := Some 1, slug := Some ''hello-world'', summary := Some ''first draft'',
          meta_keywords := Some ''first draft'', meta_description := Some ''first draft''\<rparr>,
        (new_entry ''Hello World'' ''second text'' True (Some (mk_datetime 2020 3 2 0 0 0 0)))
         \<lparr>pk := Some 2, slug := Some ''hello-world'', summary := Some ''second text'',
          meta_keywords := Some ''second text'', meta_description := Some ''second text'',
          created_on := Some (mk_datetime 2020 3 2 0 0 0 0)\<rparr>])"
  by (simp add: entry_save_defs slugify_hello_world summary_second_text slug_loop_empty
        year_datetime_max)

lemma slug_loop_hello_taken:
  "slug_loop
     [(new_entry ''Hello World'' ''second text'' True (Some (mk_datetime 2020 3 2 0 0 0 0)))
         \<lparr>pk := Some 2, slug := Some ''hello-world'', summary := Some ''second text'',
          meta_keywords := Some ''second text'', meta_description := Some ''second text'',
          created_on := Some (mk_datetime 2020 3 2 0 0 0 0)\<rparr>]
     (Some 1) ''hello-world'' 1 = Some ''hello-world-2''"
  by (simp add: slug_loop_defs)

lemma resave_hello_draft:
  "BlogEntry_save slugify_ascii (mk_datetime 2020 3 3 0 0 0 0)
     [(new_entry ''Hello World'' ''first draft'' False None)
         \<lparr>pk := Some 1, slug := Some ''hello-world'', summary := Some ''first draft'',
          meta_keywords := Some ''first draft'', meta_description := Some ''first draft''\<rparr>,
      (new_entry ''Hello World'' ''second text'' True (Some (mk_datetime 2020 3 2 0 0 0 0)))
         \<lparr>pk := Some 2, slug := Some ''hello-world'', summary := Some ''second text'',
          meta_keywords := Some ''second text'', meta_description := Some ''second text'',
          created_on := Some (mk_datetime 2020 3 2 0 0 0 0)\<rparr>]
     ((new_entry ''Hello World'' ''first draft'' False None)
         \<lparr>pk := Some 1, slug := Some ''hello-world'', summary := Some ''first draft'',
          meta_keywords := Some ''first draft'', meta_description := Some ''first draft''\<rparr>)
   = Some (None,
       (new_entry ''Hello World'' ''first draft'' False None)
         \<lparr>pk := Some 1, slug := Some ''hello-world-2'', summary := Some ''first draft'',
          meta_keywords := Some ''first draft'', meta_description := Some ''first draft''\<rparr>,
       [(new_entry ''Hello World'' ''first draft'' False None)
         \<lparr>pk := Some 1, slug := Some ''hello-world-2'', summary := Some ''first draft'',
          meta_keywords := Some ''first draft'', meta_description := Some ''first draft''\<rparr>,
        (new_entry ''Hello World'' ''second text'' True (Some (mk_datetime 2020 3 2 0 0 0 0)))
         \<lparr>pk := Some 2, slug := Some ''hello-world'', summary := Some ''second text'',
          meta_keywords := Some ''second text'', meta_description := Some ''second text'',
          created_on := Some (mk_datetime 2020 3 2 0 0 0 0)\<rparr>])"
proof -
  have q: "BlogPublishedManager_get_queryset (mk_datetime 2020 3 3 0 0 0 0)
     [(new_entry ''Hello World'' ''first draft'' False None)
         \<lparr>pk := Some 1, slug := Some ''hello-world'', summary := Some ''first draft'',
          meta_keywords := Some ''first draft'', meta_description := Some ''first draft''\<rparr>,
      (new_entry ''Hello World'' ''second text'' True (Some (mk_datetime 2020 3 2 0 0 0 0)))
         \<lparr>pk := Some 2, slug := Some ''hello-world'', summary := Some ''second text'',
          meta_keywords := Some ''second text'', meta_description := Some ''second text'',
          created_on := Some (mk_datetime 2020 3 2 0 0 0 0)\<rparr>]
    = [(new_entry ''Hello World'' ''second text'' True (Some (mk_datetime 2020 3 2 0 0 0 0)))
         \<lparr>pk := Some 2, slug := Some ''hello-world'', summary := Some ''second text'',
          meta_keywords := Some ''second text'', meta_description := Some ''second text'',
          created_on := Some (mk_datetime 2020 3 2 0 0 0 0)\<rparr>]"
    by (simp add: BlogPublishedManager_get_queryset_def new_entry_def timestamp_defs)
  show ?thesis
    unfolding BlogEntry_save_def q
    by (simp add: new_entry_def blank_def Model_save_def Let_def
          slug_loop_hello_taken[unfolded new_entry_def, simplified])
qed

lemma save_scheduled:
  "BlogEntry_save slugify_ascii (mk_datetime 2020 3 3 0 0 0 0) []
     (new_entry ''Hello World'' ''first draft'' True (Some (mk_datetime 2020 3 9 0 0 0 0)))
   = Some (None,
       (new_entry ''Hello World'' ''first draft'' True (Some (mk_datetime 2020 3 9 0 0 0 0)))
         \<lparr>pk := Some 1, slug := Some ''hello-world'', summary := Some ''first draft'',
          meta_keywords := Some ''first draft'', meta_description := Some ''first draft'',
          created_on := Some (mk_datetime 2020 3 9 0 0 0 0)\<rparr>,
       [(new_entry ''Hello World'' ''first draft'' True (Some (mk_datetime 2020 3 9 0 0 0 0)))
         \<lparr>pk := Some 1, slug := Some ''hello-world'', summary := Some ''first draft'',
          meta_keywords := Some ''first draft'', meta_description := Some ''first draft'',
          created_on := Some (mk_datetime 2020 3 9 0 0 0 0)\<rparr>])"
  by (simp add: entry_save_defs slugify_hello_world summary_first_draft slug_loop_empty
        year_datetime_max)

lemma save_post_beside_scheduled:
  "BlogEntry_save slugify_ascii (mk_datetime 2020 3 3 0 0 0 0)
     [(new_entry ''Hello World'' ''first draft'' True (Some (mk_datetime 2020 3 9 0 0 0 0)))
         \<lparr>pk := Some 1, slug := Some ''hello-world'', summary := Some ''first draft'',
          meta_keywords := Some ''first draft'', meta_description := Some ''first draft'',
          created_on := Some (mk_datetime 2020 3 9 0 0 0 0)\<rparr>]
     (new_entry ''Hello World'' ''second text'' True (Some (mk_datetime 2020 3 2 0 0 0 0)))
   = Some (None,
       (new_entry ''Hello World'' ''second text'' True (Some (mk_datetime 2020 3 2 0 0 0 0)))
         \<lparr>pk := Some 2, slug := Some ''hello-world'', summary := Some ''second text'',
          meta_keywords := Some ''second text'', meta_description := Some ''second text'',
          created_on := Some (mk_datetime 2020 3 2 0 0 0 0)\<rparr>,
       [(new_entry ''Hello World'' ''first draft'' True (Some (mk_datetime 2020 3 9 0 0 0 0)))
         \<lparr>pk := Some 1, slug := Some ''hello-world'', summary := Some ''first draft'',
          meta_keywords := Some ''first draft'', meta_description := Some ''first draft'',
          created_on := Some (mk_datetime 2020 3 9 0 0 0 0)\<rparr>,
        (new_entry ''Hello World'' ''second text'' True (Some (mk_datetime 2020 3 2 0 0 0 0)))
         \<lparr>pk := Some 2, slug := Some ''hello-world'', summary := Some ''second text'',
          meta_keywords := Some ''second text'', meta_description := Some ''second text'',
          created_on := Some (mk_datetime 2020 3 2 0 0 0 0)\<rparr>])"
proof -
  have q: "BlogPublishedManager_get_queryset (mk_datetime 2020 3 3 0 0 0 0)
     [(new_entry ''Hello World'' ''first draft'' True (Some (mk_datetime 2020 3 9 0 0 0 0)))
         \<lparr>pk := Some 1, slug := Some ''hello-world'', summary := Some ''first draft'',
          meta_keywords := Some ''first draft'', meta_description := Some ''first draft'',
          created_on := Some (mk_datetime 2020 3 9 0 0 0 0)\<rparr>] = []"
    by (simp add: BlogPublishedManager_get_queryset_def new_entry_def timestamp_defs)
  show ?thesis
    unfolding BlogEntry_save_def q
    by (simp add: new_entry_def blank_def Model_save_def BlogEntry_set_pk_def next_pk_def Let_def
          slug_loop_empty year_datetime_max slugify_hello_world summary_second_text)
qed

lemma save_first_publish:
  "BlogEntry_save slugify_ascii (mk_datetime 2020 3 3 0 0 0 0) []
     (new_entry ''Hello World'' ''second text'' True (Some (mk_datetime 2020 3 2 0 0 0 0)))
   = Some (None,
       (new_entry ''Hello World'' ''second text'' True (Some (mk_datetime 2020 3 2 0 0 0 0)))
         \<lparr>pk := Some 1, slug := Some ''hello-world'', summary := Some ''second text'',
          meta_keywords := Some ''second text'', meta_description := Some ''second text'',
          created_on := Some (mk_datetime 2020 3 2 0 0 0 0)\<rparr>,
       [(new_entry ''Hello World'' ''second text'' True (Some (mk_datetime 2020 3 2 0 0 0 0)))
         \<lparr>pk := Some 1, slug := Some ''hello-world'', summary := Some ''second text'',
          meta_keywords := Some ''second text'', meta_description := Some ''second text'',
          created_on := Some (mk_datetime 2020 3 2 0 0 0 0)\<rparr>])"
  by (simp add: entry_save_defs slugify_hello_world summary_second_text slug_loop_empty
        year_datetime_max)

lemma save_second_publish:
  "BlogEntry_save slugify_ascii (mk_datetime 2020 3 6 0 0 0 0)
     [(new_entry ''Hello World'' ''second text'' True (Some (mk_datetime 2020 3 2 0 0 0 0)))
         \<lparr>pk := Some 1, slug := Some ''hello-world'', summary := Some ''second text'',
          meta_keywords := Some ''second text'', meta_description := Some ''second text'',
          created_on := Some (mk_datetime 2020 3 2 0 0 0 0)\<rparr>]
     ((new_entry ''Hello World'' ''second text'' True (Some (mk_datetime 2020 3 2 0 0 0 0)))
         \<lparr>pk := Some 1, slug := Some ''hello-world'', summary := Some ''second text'',
          meta_keywords := Some ''second text'', meta_description := Some ''second text'',
          created_on := Some (mk_datetime 2020 3 2 0 0 0 0),
          publish_date := Some (mk_datetime 2020 3 5 0 0 0 0)\<rparr>)
   = Some (None,
       (new_entry ''Hello World'' ''second text'' True (Some (mk_datetime 2020 3 2 0 0 0 0)))
         \<lparr>pk := Some 1, slug := Some ''hello-world'', summary := Some ''second text'',
          meta_keywords := Some ''second text'', meta_description := Some ''second text'',
          created_on := Some (mk_datetime 2020 3 2 0 0 0 0),
          publish_date := Some (mk_datetime 2020 3 5 0 0 0 0)\<rparr>,
       [(new_entry ''Hello World'' ''second text'' True (Some (mk_datetime 2020 3 2 0 0 0 0)))
         \<lparr>pk := Some 1, slug := Some ''hello-world'', summary := Some ''second text'',
          meta_keywords := Some ''second text'', meta_description := Some ''second text'',
          created_on := Some (mk_datetime 2020 3 2 0 0 0 0),
          publish_date := Some (mk_datetime 2020 3 5 0 0 0 0)\<rparr>])"
proof -
  have l: "slug_loop
     [(new_entry ''Hello World'' ''second text'' True (Some (mk_datetime 2020 3 2 0 0 0 0)))
         \<lparr>pk := Some 1, slug := Some ''hello-world'', summary := Some ''second text'',
          meta_keywords := Some ''second text'', meta_description := Some ''second text'',
          created_on := Some (mk_datetime 2020 3 2 0 0 0 0)\<rparr>]
     (Some 1) ''hello-world'' 1 = Some ''hello-world''"
    by (simp add: slug_loop_defs)
  have q: "BlogPublishedManager_get_queryset (mk_datetime 2020 3 6 0 0 0 0)
     [(new_entry ''Hello World'' ''second text'' True (Some (mk_datetime 2020 3 2 0 0 0 0)))
         \<lparr>pk := Some 1, slug := Some ''hello-world'', summary := Some ''second text'',
          meta_keywords := Some ''second text'', meta_description := Some ''second text'',
          created_on := Some (mk_datetime 2020 3 2 0 0 0 0)\<rparr>]
    =
     [(new_entry ''Hello World'' ''second text'' True (Some (mk_datetime 2020 3 2 0 0 0 0)))
         \<lparr>pk := Some 1, slug := Some ''hello-world'', summary := Some ''second text'',
          meta_keywords := Some ''second text'', meta_description := Some ''second text'',
          created_on := Some (mk_datetime 2020 3 2 0 0 0 0)\<rparr>]"
    by (simp add: BlogPublishedManager_get_queryset_def new_entry_def timestamp_defs)
  show ?thesis
    unfolding BlogEntry_save_def q
    by (simp add: new_entry_def blank_def Model_save_def Let_def year_2020
          l[unfolded new_entry_def, simplified])
qed

lemma save_far_future:
  "BlogEntry_save slugify_ascii (mk_datetime 2020 3 3 0 0 0 0) []
     (new_entry ''Hello World'' ''second text'' True (Some (mk_datetime 9999 2 2 0 0 0 0)))
   = Some (None,
       (new_entry ''Hello World'' ''second text'' True (Some (mk_datetime 9999 2 2 0 0 0 0)))
         \<lparr>pk := Some 1, slug := Some ''hello-world'', summary := Some ''second text'',
          meta_keywords := Some ''second text'', meta_description := Some ''second text'',
          created_on := Some (mk_datetime 9999 2 2 0 0 0 0)\<rparr>,
       [(new_entry ''Hello World'' ''second text'' True (Some (mk_datetime 9999 2 2 0 0 0 0)))
         \<lparr>pk := Some 1, slug := Some ''hello-world'', summary := Some ''second text'',
          meta_keywords := Some ''second text'', meta_description := Some ''second text'',
          created_on := Some (mk_datetime 9999 2 2 0 0 0 0)\<rparr>])"
  by (simp add: entry_save_defs slugify_hello_world summary_second_text slug_loop_empty
        year_datetime_max)

lemma save_far_future_again:
  "BlogEntry_save slugify_ascii (mk_datetime 2020 3 3 0 0 0 0)
     [(new_entry ''Hello World'' ''second text'' True (Some (mk_datetime 9999 2 2 0 0 0 0)))
         \<lparr>pk := Some 1, slug := Some ''hello-world'', summary := Some ''second text'',
          meta_keywords := Some ''second text'', meta_description := Some ''second text'',
          created_on := Some (mk_datetime 9999 2 2 0 0 0 0)\<rparr>]
     ((new_entry ''Hello World'' ''second text'' True (Some (mk_datetime 9999 2 2 0 0 0 0)))
         \<lparr>pk := Some 1, slug := Some ''hello-world'', summary := Some ''second text'',
          meta_keywords := Some ''second text'', meta_description := Some ''second text'',
          created_on := Some (mk_datetime 9999 2 2 0 0 0 0),
          publish_date := Some (mk_datetime 2020 3 2 0 0 0 0)\<rparr>)
   = Some (None,
       (new_entry ''Hello World'' ''second text'' True (Some (mk_datetime 9999 2 2 0 0 0 0)))
         \<lparr>pk := Some 1, slug := Some ''hello-world'', summary := Some ''second text'',
          meta_keywords := Some ''second text'', meta_description := Some ''second text'',
          created_on := Some (mk_datetime 2020 3 2 0 0 0 0),
          publish_date := Some (mk_datetime 2020 3 2 0 0 0 0)\<rparr>,
       [(new_entry ''Hello World'' ''second text'' True (Some (mk_datetime 9999 2 2 0 0 0 0)))
         \<lparr>pk := Some 1, slug := Some ''hello-world'', summary := Some ''second text'',
          meta_keywords := Some ''second text'', meta_description := Some ''second text'',
          created_on := Some (mk_datetime 2020 3 2 0 0 0 0),
          publish_date := Some (mk_datetime 2020 3 2 0 0 0 0)\<rparr>])"
proof -
  have q: "BlogPublishedManager_get_queryset (mk_datetime 2020 3 3 0 0 0 0)
     [(new_entry ''Hello World'' ''second text'' True (Some (mk_datetime 9999 2 2 0 0 0 0)))
         \<lparr>pk := Some 1, slug := Some ''hello-world'', summary := Some ''second text'',
          meta_keywords := Some ''second text'', meta_description := Some ''second text'',
          created_on := Some (mk_datetime 9999 2 2 0 0 0 0)\<rparr>] = []"
    by (simp add: BlogPublishedManager_get_queryset_def new_entry_def timestamp_defs)
  show ?thesis
    unfolding BlogEntry_save_def q
    by (simp add: new_entry_def blank_def Model_save_def Let_def slug_loop_empty year_9999)
qed

lemma save_null_publish_date:
  "BlogEntry_save slugify_ascii (mk_datetime 2020 3 3 0 0 0 0) []
     (new_entry ''Hello World'' ''second text'' True None)
   = Some (None,
       (new_entry ''Hello World'' ''second text'' True None)
         \<lparr>pk := Some 1, slug := Some ''hello-world'', summary := Some ''second text'',
          meta_keywords := Some ''second text'', meta_description := Some ''second text'',
          created_on := None\<rparr>,
       [(new_entry ''Hello World'' ''second text'' True None)
         \<lparr>pk := Some 1, slug := Some ''hello-world'', summary := Some ''second text'',
          meta_keywords := Some ''second text'', meta_description := Some ''second text'',
          created_on := None\<rparr>])"
  by (simp add: entry_save_defs slugify_hello_world summary_second_text slug_loop_empty
        year_datetime_max)

section \<open>The claims\<close>

subsection \<open>Slugs\<close>

text \<open>
  C1. The claim is that after a save no two distinct entries share a slug. The
  slug query goes through \<^verbatim>\<open>BlogEntry.objects\<close>, which hides unpublished entries
  and entries whose publish date is still ahead. Here an entry titled "Hello World"
  is saved on 3 March, scheduled for 9 March; a second entry with the same title
  is saved the same day. The loop does not see the first, both are stored with the
  slug \<open>hello-world\<close>, and on 10 March the published listing shows both.
\<close>

theorem duplicate_slug_after_saves:
  "save_all slugify_ascii (mk_datetime 2020 3 3 0 0 0 0) []
     [new_entry ''Hello World'' ''first draft'' True (Some (mk_datetime 2020 3 9 0 0 0 0)),
      new_entry ''Hello World'' ''second text'' True (Some (mk_datetime 2020 3 2 0 0 0 0))]
   = Some
      [(new_entry ''Hello World'' ''first draft'' True (Some (mk_datetime 2020 3 9 0 0 0 0)))
         \<lparr>pk := Some 1, slug := Some ''hello-world'', summary := Some ''first draft'',
          meta_keywords := Some ''first draft'', meta_description := Some ''first draft'',
          created_on := Some (mk_datetime 2020 3 9 0 0 0 0)\<rparr>,
       (new_entry ''Hello World'' ''second text'' True (Some (mk_datetime 2020 3 2 0 0 0 0)))
         \<lparr>pk := Some 2, slug := Some ''hello-world'', summary := Some ''second text'',
          meta_keywords := Some ''second text'', meta_description := Some ''second text'',
          created_on := Some (mk_datetime 2020 3 2 0 0 0 0)\<rparr>]
   \<and> map slug (BlogPublishedManager_get_queryset (mk_datetime 2020 3 10 0 0 0 0)
      [(new_entry ''Hello World'' ''first draft'' True (Some (mk_datetime 2020 3 9 0 0 0 0)))
         \<lparr>pk := Some 1, slug := Some ''hello-world'', summary := Some ''first draft'',
          meta_keywords := Some ''first draft'', meta_description := Some ''first draft'',
          created_on := Some (mk_datetime 2020 3 9 0 0 0 0)\<rparr>,
       (new_entry ''Hello World'' ''second text'' True (Some (mk_datetime 2020 3 2 0 0 0 0)))
         \<lparr>pk := Some 2, slug := Some ''hello-world'', summary := Some ''second text'',
          meta_keywords := Some ''second text'', meta_description := Some ''second text'',
          created_on := Some (mk_datetime 2020 3 2 0 0 0 0)\<rparr>])
     = [Some ''hello-world'', Some ''hello-world'']"
proof -
  have "map slug (BlogPublishedManager_get_queryset (mk_datetime 2020 3 10 0 0 0 0)
      [(new_entry ''Hello World'' ''first draft'' True (Some (mk_datetime 2020 3 9 0 0 0 0)))
         \<lparr>pk := Some 1, slug := Some ''hello-world'', summary := Some ''first draft'',
          meta_keywords := Some ''first draft'', meta_description := Some ''first draft'',
          created_on := Some (mk_datetime 2020 3 9 0 0 0 0)\<rparr>,
       (new_entry ''Hello World'' ''second text'' True (Some (mk_datetime 2020 3 2 0 0 0 0)))
         \<lparr>pk := Some 2, slug := Some ''hello-world'', summary := Some ''second text'',
          meta_keywords := Some ''second text'', meta_description := Some ''second text'',
          created_on := Some (mk_datetime 2020 3 2 0 0 0 0)\<rparr>])
     = [Some ''hello-world'', Some ''hello-world'']"
    by (simp add: BlogPublishedManager_get_queryset_def new_entry_def timestamp_defs)
  moreover have "save_all slugify_ascii (mk_datetime 2020 3 3 0 0 0 0) []
     [new_entry ''Hello World'' ''first draft'' True (Some (mk_datetime 2020 3 9 0 0 0 0)),
      new_entry ''Hello World'' ''second text'' True (Some (mk_datetime 2020 3 2 0 0 0 0))]
   = Some
      [(new_entry ''Hello World'' ''first draft'' True (Some (mk_datetime 2020 3 9 0 0 0 0)))
         \<lparr>pk := Some 1, slug := Some ''hello-world'', summary := Some ''first draft'',
          meta_keywords := Some ''first draft'', meta_description := Some ''first draft'',
          created_on := Some (mk_datetime 2020 3 9 0 0 0 0)\<rparr>,
       (new_entry ''Hello World'' ''second text'' True (Some (mk_datetime 2020 3 2 0 0 0 0)))
         \<lparr>pk := Some 2, slug := Some ''hello-world'', summary := Some ''second text'',
          meta_keywords := Some ''second text'', meta_description := Some ''second text'',
          created_on := Some (mk_datetime 2020 3 2 0 0 0 0)\<rparr>]"
    by (simp add: save_scheduled save_post_beside_scheduled)
  ultimately show ?thesis by (intro conjI)
qed

text \<open>
  C8. The claim is that saving a stored entry again, title and slug unchanged,
  keeps its slug. Here a draft titled "Hello World" is saved, then a published
  entry with the same title (which receives the same slug, the draft being hidden
  from the slug query); saving the stored draft again, unchanged, finds its own
  slug taken by the published entry and moves it to \<open>hello-world-2\<close>.
\<close>

theorem resave_changes_slug:
  "save_all slugify_ascii (mk_datetime 2020 3 3 0 0 0 0) []
     [new_entry ''Hello World'' ''first draft'' False None,
      new_entry ''Hello World'' ''second text'' True (Some (mk_datetime 2020 3 2 0 0 0 0)),
      (new_entry ''Hello World'' ''first draft'' False None)
         \<lparr>pk := Some 1, slug := Some ''hello-world'', summary := Some ''first draft'',
          meta_keywords := Some ''first draft'', meta_description := Some ''first draft''\<rparr>]
   = Some
      [(new_entry ''Hello World'' ''first draft'' False None)
         \<lparr>pk := Some 1, slug := Some ''hello-world-2'', summary := Some ''first draft'',
          meta_keywords := Some ''first draft'', meta_description := Some ''first draft''\<rparr>,
       (new_entry ''Hello World'' ''second text'' True (Some (mk_datetime 2020 3 2 0 0 0 0)))
         \<lparr>pk := Some 2, slug := Some ''hello-world'', summary := Some ''second text'',
          meta_keywords := Some ''second text'', meta_description := Some ''second text'',
          created_on := Some (mk_datetime 2020 3 2 0 0 0 0)\<rparr>]"
  by (simp add: save_hello_draft save_hello_post resave_hello_draft)

subsection \<open>Comments\<close>

text \<open>
  C2 (amended). At a query time at least one day after the calendar's origin, the
  recent-comment listing of an entry returns exactly the comments attached to the
  entry that are public (\<open>is_public\<close> true), not spam, and created strictly later
  than 24 hours before the query time, ordered newest first. (At an earlier query
  time the subtraction of a day raises.)
\<close>

theorem get_recent_comments_newest_first:
  "(now < us_per_day \<longrightarrow> get_recent_comments now table e = Inl OverflowError)
   \<and> (us_per_day \<le> now \<longrightarrow>
        (\<exists>cs. get_recent_comments now table e = Inr cs
           \<and> mset cs = mset (filter (\<lambda>c. Some (comment_for c) = pk e \<and> is_public c = Some True
                                     \<and> is_spam c = False
                                     \<and> now - us_per_day < comment_created_on c) table)
           \<and> sorted (rev (map comment_created_on cs))))"
proof (intro conjI impI)
  assume "now < us_per_day"
  then show "get_recent_comments now table e = Inl OverflowError"
    by (simp add: get_recent_comments_def minus_days_def)
next
  assume le: "us_per_day \<le> now"
  let ?rows = "filter (\<lambda>c. Some (comment_for c) = pk e \<and> is_public c = Some True
                                     \<and> is_spam c = False
                                     \<and> now - us_per_day < comment_created_on c) table"
  from le have "get_recent_comments now table e = Inr (rev (sort_key comment_created_on ?rows))"
    by (simp add: get_recent_comments_def minus_days_def order_by_desc_def
          CommentManager_get_queryset_def recent_filter del: filter_filter)
  moreover have "mset (rev (sort_key comment_created_on ?rows)) = mset ?rows"
    by simp
  moreover have "sorted (rev (map comment_created_on (rev (sort_key comment_created_on ?rows))))"
    by (simp add: rev_map)
  ultimately show "\<exists>cs. get_recent_comments now table e = Inr cs
           \<and> mset cs = mset ?rows \<and> sorted (rev (map comment_created_on cs))"
    by blast
qed

theorem get_recent_comments_newest_first_witness:
  "us_per_day \<le> mk_datetime 2020 3 3 0 0 0 0
   \<and> get_recent_comments (mk_datetime 2020 3 3 0 0 0 0)
       [(new_comment 1 ''first'' False (Some True))
           \<lparr>comment_id := Some 1, comment_created_on := mk_datetime 2020 3 2 10 0 0 0\<rparr>,
        (new_comment 1 ''old'' False (Some True))
           \<lparr>comment_id := Some 2, comment_created_on := mk_datetime 2019 12 31 23 0 0 0\<rparr>,
        (new_comment 1 ''third'' False (Some True))
           \<lparr>comment_id := Some 3, comment_created_on := mk_datetime 2020 3 2 12 0 0 0\<rparr>,
        (new_comment 2 ''elsewhere'' False (Some True))
           \<lparr>comment_id := Some 4, comment_created_on := mk_datetime 2020 3 2 13 0 0 0\<rparr>,
        (new_comment 1 ''spam'' True (Some False))
           \<lparr>comment_id := Some 5, comment_created_on := mk_datetime 2020 3 2 14 0 0 0\<rparr>]
       ((new_entry ''Hello World'' ''some text'' True (Some (mk_datetime 2020 3 2 0 0 0 0)))
           \<lparr>pk := Some 1\<rparr>)
     = Inr [(new_comment 1 ''third'' False (Some True))
              \<lparr>comment_id := Some 3, comment_created_on := mk_datetime 2020 3 2 12 0 0 0\<rparr>,
            (new_comment 1 ''first'' False (Some True))
              \<lparr>comment_id := Some 1, comment_created_on := mk_datetime 2020 3 2 10 0 0 0\<rparr>]"
  using get_recent_comments_newest_first [of "mk_datetime 2020 3 3 0 0 0 0"
       "[(new_comment 1 ''first'' False (Some True))
           \<lparr>comment_id := Some 1, comment_created_on := mk_datetime 2020 3 2 10 0 0 0\<rparr>,
        (new_comment 1 ''old'' False (Some True))
           \<lparr>comment_id := Some 2, comment_created_on := mk_datetime 2019 12 31 23 0 0 0\<rparr>,
        (new_comment 1 ''third'' False (Some True))
           \<lparr>comment_id := Some 3, comment_created_on := mk_datetime 2020 3 2 12 0 0 0\<rparr>,
        (new_comment 2 ''elsewhere'' False (Some True))
           \<lparr>comment_id := Some 4, comment_created_on := mk_datetime 2020 3 2 13 0 0 0\<rparr>,
        (new_comment 1 ''spam'' True (Some False))
           \<lparr>comment_id := Some 5, comment_created_on := mk_datetime 2020 3 2 14 0 0 0\<rparr>]"
       "(new_entry ''Hello World'' ''some text'' True (Some (mk_datetime 2020 3 2 0 0 0 0)))
           \<lparr>pk := Some 1\<rparr>"]
  by (simp add: get_recent_comments_def minus_days_def order_by_desc_def
        CommentManager_get_queryset_def new_comment_def new_entry_def timestamp_defs)

theorem get_recent_comments_oldest_first_counterexample:
  "get_recent_comments (mk_datetime 2020 3 3 0 0 0 0)
       [(new_comment 1 ''first'' False (Some True))
           \<lparr>comment_id := Some 1, comment_created_on := mk_datetime 2020 3 2 10 0 0 0\<rparr>,
        (new_comment 1 ''pending'' False None)
           \<lparr>comment_id := Some 2, comment_created_on := mk_datetime 2020 3 2 11 0 0 0\<rparr>,
        (new_comment 1 ''third'' False (Some True))
           \<lparr>comment_id := Some 3, comment_created_on := mk_datetime 2020 3 2 12 0 0 0\<rparr>]
       ((new_entry ''Hello World'' ''some text'' True (Some (mk_datetime 2020 3 2 0 0 0 0)))
           \<lparr>pk := Some 1\<rparr>)
     = Inr [(new_comment 1 ''third'' False (Some True))
              \<lparr>comment_id := Some 3, comment_created_on := mk_datetime 2020 3 2 12 0 0 0\<rparr>,
            (new_comment 1 ''first'' False (Some True))
              \<lparr>comment_id := Some 1, comment_created_on := mk_datetime 2020 3 2 10 0 0 0\<rparr>]
   \<and> mk_datetime 2020 3 2 10 0 0 0 < mk_datetime 2020 3 2 12 0 0 0
   \<and> is_spam ((new_comment 1 ''pending'' False None)
           \<lparr>comment_id := Some 2, comment_created_on := mk_datetime 2020 3 2 11 0 0 0\<rparr>) = False
   \<and> mk_datetime 2020 3 3 0 0 0 0 - us_per_day < mk_datetime 2020 3 2 11 0 0 0
   \<and> mk_datetime 2020 3 2 11 0 0 0 \<le> mk_datetime 2020 3 3 0 0 0 0"
  by (simp add: get_recent_comments_def minus_days_def order_by_desc_def
        CommentManager_get_queryset_def new_comment_def new_entry_def timestamp_defs)

text \<open>
  C3 (amended). The comment count of an entry is the number of comments attached
  to the entry that are not spam and are public: the manager's filter on
  \<open>is_public\<close> applies as well.
\<close>

theorem get_num_comments_public_non_spam:
  "get_num_comments table e =
     length (filter (\<lambda>c. Some (comment_for c) = pk e \<and> is_spam c = False
                          \<and> is_public c = Some True) table)"
proof -
  have "filter (\<lambda>c. Some (comment_for c) = pk e \<and> is_spam c = False)
          (filter (\<lambda>c. is_public c = Some True) table)
        = filter (\<lambda>c. Some (comment_for c) = pk e \<and> is_spam c = False
                          \<and> is_public c = Some True) table"
    by (induction table) auto
  then show ?thesis
    by (simp only: get_num_comments_def CommentManager_get_queryset_def)
qed

theorem get_num_comments_no_other_filter_counterexample:
  "get_num_comments
       [(new_comment 1 ''pending'' False None)
           \<lparr>comment_id := Some 1, comment_created_on := mk_datetime 2020 3 2 11 0 0 0\<rparr>]
       ((new_entry ''Hello World'' ''some text'' True (Some (mk_datetime 2020 3 2 0 0 0 0)))
           \<lparr>pk := Some 1\<rparr>) = 0
   \<and> length (filter (\<lambda>c. comment_for c = 1 \<and> is_spam c = False)
       [(new_comment 1 ''pending'' False None)
           \<lparr>comment_id := Some 1, comment_created_on := mk_datetime 2020 3 2 11 0 0 0\<rparr>]) = 1"
  by (simp add: get_num_comments_def CommentManager_get_queryset_def new_comment_def new_entry_def)

text \<open>
  C4. Saving a comment whose \<open>is_spam\<close> is true stores it with \<open>is_public\<close>
  false, whatever the caller supplied, and the default listing
  (\<^verbatim>\<open>Comment.objects\<close>) then does not contain it; the default listing of any
  table contains no row whose \<open>is_public\<close> is false.
\<close>

theorem spam_comment_not_public:
  "(is_spam c \<longrightarrow>
      (\<exists>c' table'. Comment_save now table c = (c', table')
         \<and> is_public c' = Some False
         \<and> get_row comment_id table' (comment_id c') = Some c'
         \<and> c' \<notin> set (CommentManager_get_queryset table')))
   \<and> (\<forall>r \<in> set (CommentManager_get_queryset table). is_public r \<noteq> Some False)"
proof (intro conjI impI)
  assume spam: "is_spam c"
  define self2 where "self2 =
     (if (case comment_id c of None \<Rightarrow> True | Some k \<Rightarrow> Some k \<notin> set (map comment_id table))
      then c\<lparr>is_public := Some False, comment_created_on := now\<rparr>
      else c\<lparr>is_public := Some False\<rparr>)"
  have p: "is_public self2 = Some False" by (simp add: self2_def)
  from spam have sv: "Comment_save now table c = Model_save comment_id Comment_set_id table self2"
    by (simp add: Comment_save_def self2_def Let_def)
  obtain c' table' where "Model_save comment_id Comment_set_id table self2 = (c', table')"
      "get_row comment_id table' (comment_id c') = Some c'" "is_public c' = is_public self2"
    using Comment_saved[of table self2] by blast
  with sv p show "\<exists>c' table'. Comment_save now table c = (c', table')
         \<and> is_public c' = Some False
         \<and> get_row comment_id table' (comment_id c') = Some c'
         \<and> c' \<notin> set (CommentManager_get_queryset table')"
    by (auto simp: CommentManager_get_queryset_def)
next
  show "\<forall>r \<in> set (CommentManager_get_queryset table). is_public r \<noteq> Some False"
    by (simp add: CommentManager_get_queryset_def)
qed

theorem spam_comment_not_public_witness:
  "is_spam (new_comment 1 ''buy now'' True (Some True))
   \<and> Comment_save (mk_datetime 2020 3 3 0 0 0 0)
        [(new_comment 1 ''first'' False (Some True))
           \<lparr>comment_id := Some 1, comment_created_on := mk_datetime 2020 3 2 10 0 0 0\<rparr>]
        (new_comment 1 ''buy now'' True (Some True))
     = ((new_comment 1 ''buy now'' True (Some False))
           \<lparr>comment_id := Some 2, comment_created_on := mk_datetime 2020 3 3 0 0 0 0\<rparr>,
        [(new_comment 1 ''first'' False (Some True))
           \<lparr>comment_id := Some 1, comment_created_on := mk_datetime 2020 3 2 10 0 0 0\<rparr>,
         (new_comment 1 ''buy now'' True (Some False))
           \<lparr>comment_id := Some 2, comment_created_on := mk_datetime 2020 3 3 0 0 0 0\<rparr>])
   \<and> CommentManager_get_queryset
        [(new_comment 1 ''first'' False (Some True))
           \<lparr>comment_id := Some 1, comment_created_on := mk_datetime 2020 3 2 10 0 0 0\<rparr>,
         (new_comment 1 ''buy now'' True (Some False))
           \<lparr>comment_id := Some 2, comment_created_on := mk_datetime 2020 3 3 0 0 0 0\<rparr>]
     = [(new_comment 1 ''first'' False (Some True))
           \<lparr>comment_id := Some 1, comment_created_on := mk_datetime 2020 3 2 10 0 0 0\<rparr>]"
  using spam_comment_not_public [of "new_comment 1 ''buy now'' True (Some True)"
       "mk_datetime 2020 3 3 0 0 0 0"
       "[(new_comment 1 ''first'' False (Some True))
           \<lparr>comment_id := Some 1, comment_created_on := mk_datetime 2020 3 2 10 0 0 0\<rparr>]"]
  by (simp add: Comment_save_def Model_save_def Comment_set_id_def next_pk_def
        CommentManager_get_queryset_def new_comment_def Let_def)

subsection \<open>Title and publication date\<close>

text \<open>
  C6. An entry saved with a blank title (\<^verbatim>\<open>None\<close> or empty) leaves the save with
  the first five whitespace-separated tokens of its raw text, joined with hyphens,
  as its title; the save always returns, and when it does not raise, that object
  is the stored row.
\<close>

theorem BlogEntry_save_infers_title:
  assumes "blank (title e)"
  shows "\<exists>err e' table'. BlogEntry_save slugify now table e = Some (err, e', table')
           \<and> title e' = Some (py_join ''-'' (take 5 (whitespace_tokens (raw_text e))))
           \<and> (err = None \<longrightarrow> get_row pk table' (pk e') = Some e')"
proof -
  from assms have t: "(case title e of None \<Rightarrow> infer_title_or_slug (raw_text e)
                     | Some t \<Rightarrow> if t = [] then infer_title_or_slug (raw_text e) else t)
         = py_join ''-'' (take 5 (whitespace_tokens (raw_text e)))"
    by (auto simp: blank_def infer_title_or_slug_def py_split_tokens)
  obtain self4 where s4: "title self4 = Some (py_join ''-'' (take 5 (whitespace_tokens (raw_text e))))"
     and sv: "BlogEntry_save slugify now table e =
        (if is_published e
         then (case created_on e of
                 None \<Rightarrow> Some (Some AttributeError, self4, table)
               | Some c \<Rightarrow>
                   Some (None, Model_save pk BlogEntry_set_pk table
                           (if year c = 9999 then self4\<lparr>created_on := publish_date e\<rparr> else self4)))
         else Some (None, Model_save pk BlogEntry_set_pk table self4))"
    using BlogEntry_save_shape[of now table e slugify] unfolding t by blast
  have ms: "\<And>x. title x = title self4 \<Longrightarrow>
      \<exists>e' table'. Model_save pk BlogEntry_set_pk table x = (e', table') \<and> title e' = title self4
         \<and> get_row pk table' (pk e') = Some e'"
  proof -
    fix x :: BlogEntry assume x: "title x = title self4"
    obtain e' table' where m: "Model_save pk BlogEntry_set_pk table x = (e', table')"
      by (cases "Model_save pk BlogEntry_set_pk table x") blast
    obtain k where "fst (Model_save pk BlogEntry_set_pk table x) = x\<lparr>pk := k\<rparr>"
      using Model_save_fst by blast
    with m x have "title e' = title self4" by simp
    with m BlogEntry_get_row_saved[OF m] show "\<exists>e' table'. Model_save pk BlogEntry_set_pk table x = (e', table') \<and> title e' = title self4
         \<and> get_row pk table' (pk e') = Some e'" by blast
  qed
  show ?thesis
  proof (cases "is_published e")
    case False
    with sv ms[of self4] s4 show ?thesis by auto
  next
    case True
    show ?thesis
    proof (cases "created_on e")
      case None
      with True sv s4 show ?thesis by auto
    next
      case (Some c)
      have "title (if year c = 9999 then self4\<lparr>created_on := publish_date e\<rparr> else self4) = title self4"
        by simp
      from ms[OF this] True Some sv s4 show ?thesis by auto
    qed
  qed
qed

theorem BlogEntry_save_infers_title_witness:
  "blank (title (new_entry [] ''one two three four five six seven'' True
                   (Some (mk_datetime 2020 3 2 0 0 0 0))))
   \<and> (\<exists>err e' table'.
         BlogEntry_save slugify_ascii (mk_datetime 2020 3 3 0 0 0 0) []
           (new_entry [] ''one two three four five six seven'' True
              (Some (mk_datetime 2020 3 2 0 0 0 0))) = Some (err, e', table')
         \<and> title e' = Some ''one-two-three-four-five''
         \<and> err = None \<and> table' = [e'])"
proof -
  have b: "blank (title (new_entry [] ''one two three four five six seven'' True
                   (Some (mk_datetime 2020 3 2 0 0 0 0))))"
    by (simp add: new_entry_def blank_def)
  have tok: "py_join ''-'' (take 5 (whitespace_tokens ''one two three four five six seven''))
               = ''one-two-three-four-five''"
    by (simp add: whitespace_tokens_def isspace_def)
  have r: "raw_text (new_entry [] ''one two three four five six seven'' True
                   (Some (mk_datetime 2020 3 2 0 0 0 0))) = ''one two three four five six seven''"
    by (simp add: new_entry_def)
  obtain err e' table' where
    h: "BlogEntry_save slugify_ascii (mk_datetime 2020 3 3 0 0 0 0) []
           (new_entry [] ''one two three four five six seven'' True
              (Some (mk_datetime 2020 3 2 0 0 0 0))) = Some (err, e', table')"
       "title e' = Some ''one-two-three-four-five''"
    using BlogEntry_save_infers_title [OF b, of slugify_ascii "mk_datetime 2020 3 3 0 0 0 0" "[]"]
    unfolding r tok by blast
  from h(1) have "err = None" and "table' = [e']"
    unfolding save_blank_title by auto
  with h b show ?thesis by blast
qed

text \<open>
  C7 (amended). An entry whose \<open>created_on\<close> is \<^verbatim>\<open>datetime.max\<close> and which is
  saved as published leaves the save with \<open>created_on\<close> equal to its publish date,
  and is stored so. If that publish date is not null and not in year 9999, every
  later save of the entry (any publish date, any other field) leaves \<open>created_on\<close>
  at that first publish date.
\<close>

theorem created_on_set_at_first_publish:
  assumes "created_on e = Some datetime_max" and "is_published e"
  shows "\<exists>e1 t1. BlogEntry_save slugify now table e = Some (None, e1, t1)
           \<and> created_on e1 = publish_date e
           \<and> get_row pk t1 (pk e1) = Some e1
           \<and> (\<forall>d e2 now2. publish_date e = Some d \<and> year d \<noteq> 9999
                  \<and> created_on e2 = created_on e1 \<longrightarrow>
                (\<exists>e3 t3. BlogEntry_save slugify now2 t1 e2 = Some (None, e3, t3)
                   \<and> created_on e3 = Some d
                   \<and> get_row pk t3 (pk e3) = Some e3))"
proof -
  obtain self4 where sv: "BlogEntry_save slugify now table e =
      Some (None, Model_save pk BlogEntry_set_pk table (self4\<lparr>created_on := publish_date e\<rparr>))"
    using BlogEntry_save_shape[of now table e slugify] assms
    by (auto simp: year_datetime_max)
  obtain e1 t1 where m1: "Model_save pk BlogEntry_set_pk table (self4\<lparr>created_on := publish_date e\<rparr>) = (e1, t1)"
      and g1: "get_row pk t1 (pk e1) = Some e1"
      and c1: "created_on e1 = publish_date e"
    using Model_save_entry[of table "self4\<lparr>created_on := publish_date e\<rparr>"] by auto
  have second: "\<exists>e3 t3. BlogEntry_save slugify now2 t1 e2 = Some (None, e3, t3)
                   \<and> created_on e3 = Some d \<and> get_row pk t3 (pk e3) = Some e3"
    if d: "publish_date e = Some d" "year d \<noteq> 9999" and e2: "created_on e2 = created_on e1"
    for d e2 now2
  proof -
    from d e2 c1 have c2: "created_on e2 = Some d" by simp
    obtain s4 where s4: "created_on s4 = created_on e2"
      and sv2: "BlogEntry_save slugify now2 t1 e2 =
        (if is_published e2
         then (case created_on e2 of
                 None \<Rightarrow> Some (Some AttributeError, s4, t1)
               | Some c \<Rightarrow>
                   Some (None, Model_save pk BlogEntry_set_pk t1
                           (if year c = 9999 then s4\<lparr>created_on := publish_date e2\<rparr> else s4)))
         else Some (None, Model_save pk BlogEntry_set_pk t1 s4))"
      using BlogEntry_save_shape[of now2 t1 e2 slugify] by blast
    from sv2 c2 d(2) have "BlogEntry_save slugify now2 t1 e2 = Some (None, Model_save pk BlogEntry_set_pk t1 s4)"
      by simp
    moreover obtain e3 t3 where "Model_save pk BlogEntry_set_pk t1 s4 = (e3, t3)"
        "get_row pk t3 (pk e3) = Some e3" "created_on e3 = created_on s4"
      using Model_save_entry[of t1 s4] by auto
    ultimately show ?thesis using s4 c2 by auto
  qed
  from sv m1 g1 c1 second show ?thesis by auto
qed

theorem created_on_set_at_first_publish_witness:
  "created_on (new_entry ''Hello World'' ''second text'' True
                 (Some (mk_datetime 2020 3 2 0 0 0 0))) = Some datetime_max
   \<and> is_published (new_entry ''Hello World'' ''second text'' True
                 (Some (mk_datetime 2020 3 2 0 0 0 0)))
   \<and> year (mk_datetime 2020 3 2 0 0 0 0) \<noteq> 9999
   \<and> (\<exists>e1 t1.
         BlogEntry_save slugify_ascii (mk_datetime 2020 3 3 0 0 0 0) []
           (new_entry ''Hello World'' ''second text'' True
              (Some (mk_datetime 2020 3 2 0 0 0 0))) = Some (None, e1, t1)
         \<and> created_on e1 = Some (mk_datetime 2020 3 2 0 0 0 0)
         \<and> get_row pk t1 (Some 1) = Some e1
         \<and> (\<exists>e3 t3.
               BlogEntry_save slugify_ascii (mk_datetime 2020 3 6 0 0 0 0) t1
                 (e1\<lparr>publish_date := Some (mk_datetime 2020 3 5 0 0 0 0)\<rparr>)
                 = Some (None, e3, t3)
               \<and> created_on e3 = Some (mk_datetime 2020 3 2 0 0 0 0)
               \<and> publish_date e3 = Some (mk_datetime 2020 3 5 0 0 0 0)))"
proof -
  let ?E = "new_entry ''Hello World'' ''second text'' True (Some (mk_datetime 2020 3 2 0 0 0 0))"
  have a: "created_on ?E = Some datetime_max" and b: "is_published ?E"
    and p: "publish_date ?E = Some (mk_datetime 2020 3 2 0 0 0 0)"
    by (simp_all add: new_entry_def)
  have y: "year (mk_datetime 2020 3 2 0 0 0 0) \<noteq> 9999" by (simp add: year_2020)
  obtain e1 t1 where
    h: "BlogEntry_save slugify_ascii (mk_datetime 2020 3 3 0 0 0 0) [] ?E = Some (None, e1, t1)"
       "created_on e1 = publish_date ?E"
       "\<forall>d e2 now2. publish_date ?E = Some d \<and> year d \<noteq> 9999
                  \<and> created_on e2 = created_on e1 \<longrightarrow>
                (\<exists>e3 t3. BlogEntry_save slugify_ascii now2 t1 e2 = Some (None, e3, t3)
                   \<and> created_on e3 = Some d
                   \<and> get_row pk t3 (pk e3) = Some e3)"
    using created_on_set_at_first_publish [OF a b, of slugify_ascii "mk_datetime 2020 3 3 0 0 0 0" "[]"]
    by blast
  from h(1) have e1: "e1 = ?E\<lparr>pk := Some 1, slug := Some ''hello-world'', summary := Some ''second text'',
          meta_keywords := Some ''second text'', meta_description := Some ''second text'',
          created_on := Some (mk_datetime 2020 3 2 0 0 0 0)\<rparr>" and t1: "t1 = [e1]"
    unfolding save_first_publish by auto
  have g: "get_row pk t1 (Some 1) = Some e1"
    unfolding t1 by (simp add: get_row_def e1)
  from h(3) p y obtain e3 t3 where
    h3: "BlogEntry_save slugify_ascii (mk_datetime 2020 3 6 0 0 0 0) t1
           (e1\<lparr>publish_date := Some (mk_datetime 2020 3 5 0 0 0 0)\<rparr>) = Some (None, e3, t3)"
        "created_on e3 = Some (mk_datetime 2020 3 2 0 0 0 0)"
    by (metis (no_types, lifting) BlogEntry.select_convs(6) BlogEntry.surjective BlogEntry.update_convs(10))
  from h3(1) have "publish_date e3 = Some (mk_datetime 2020 3 5 0 0 0 0)"
    unfolding t1 e1 save_second_publish by auto
  with a b y h(1,2) p g h3 show ?thesis by auto
qed

theorem created_on_overwritten_counterexample:
  "created_on (new_entry ''Hello World'' ''second text'' True
                 (Some (mk_datetime 9999 2 2 0 0 0 0))) = Some datetime_max
   \<and> is_published (new_entry ''Hello World'' ''second text'' True
                 (Some (mk_datetime 9999 2 2 0 0 0 0)))
   \<and> BlogEntry_save slugify_ascii (mk_datetime 2020 3 3 0 0 0 0) []
     (new_entry ''Hello World'' ''second text'' True (Some (mk_datetime 9999 2 2 0 0 0 0)))
   = Some (None,
       (new_entry ''Hello World'' ''second text'' True (Some (mk_datetime 9999 2 2 0 0 0 0)))
         \<lparr>pk := Some 1, slug := Some ''hello-world'', summary := Some ''second text'',
          meta_keywords := Some ''second text'', meta_description := Some ''second text'',
          created_on := Some (mk_datetime 9999 2 2 0 0 0 0)\<rparr>,
       [(new_entry ''Hello World'' ''second text'' True (Some (mk_datetime 9999 2 2 0 0 0 0)))
         \<lparr>pk := Some 1, slug := Some ''hello-world'', summary := Some ''second text'',
          meta_keywords := Some ''second text'', meta_description := Some ''second text'',
          created_on := Some (mk_datetime 9999 2 2 0 0 0 0)\<rparr>])
   \<and> BlogEntry_save slugify_ascii (mk_datetime 2020 3 3 0 0 0 0)
     [(new_entry ''Hello World'' ''second text'' True (Some (mk_datetime 9999 2 2 0 0 0 0)))
         \<lparr>pk := Some 1, slug := Some ''hello-world'', summary := Some ''second text'',
          meta_keywords := Some ''second text'', meta_description := Some ''second text'',
          created_on := Some (mk_datetime 9999 2 2 0 0 0 0)\<rparr>]
     ((new_entry ''Hello World'' ''second text'' True (Some (mk_datetime 9999 2 2 0 0 0 0)))
         \<lparr>pk := Some 1, slug := Some ''hello-world'', summary := Some ''second text'',
          meta_keywords := Some ''second text'', meta_description := Some ''second text'',
          created_on := Some (mk_datetime 9999 2 2 0 0 0 0),
          publish_date := Some (mk_datetime 2020 3 2 0 0 0 0)\<rparr>)
   = Some (None,
       (new_entry ''Hello World'' ''second text'' True (Some (mk_datetime 9999 2 2 0 0 0 0)))
         \<lparr>pk := Some 1, slug := Some ''hello-world'', summary := Some ''second text'',
          meta_keywords := Some ''second text'', meta_description := Some ''second text'',
          created_on := Some (mk_datetime 2020 3 2 0 0 0 0),
          publish_date := Some (mk_datetime 2020 3 2 0 0 0 0)\<rparr>,
       [(new_entry ''Hello World'' ''second text'' True (Some (mk_datetime 9999 2 2 0 0 0 0)))
         \<lparr>pk := Some 1, slug := Some ''hello-world'', summary := Some ''second text'',
          meta_keywords := Some ''second text'', meta_description := Some ''second text'',
          created_on := Some (mk_datetime 2020 3 2 0 0 0 0),
          publish_date := Some (mk_datetime 2020 3 2 0 0 0 0)\<rparr>])
   \<and> mk_datetime 2020 3 2 0 0 0 0 \<noteq> mk_datetime 9999 2 2 0 0 0 0"
proof -
  have "created_on (new_entry ''Hello World'' ''second text'' True
                 (Some (mk_datetime 9999 2 2 0 0 0 0))) = Some datetime_max"
    and "is_published (new_entry ''Hello World'' ''second text'' True
                 (Some (mk_datetime 9999 2 2 0 0 0 0)))"
    by (simp_all add: new_entry_def)
  moreover have "mk_datetime 2020 3 2 0 0 0 0 \<noteq> mk_datetime 9999 2 2 0 0 0 0"
    by (simp add: timestamp_defs)
  ultimately show ?thesis
    using save_far_future save_far_future_again by (intro conjI)
qed

text \<open>
  C9. A published entry whose \<open>created_on\<close> is in year 9999 and whose publish date
  is null is not rejected by the save: the null publish date is copied, the object
  handed to the storage layer has \<open>created_on\<close> null, and so has the object after
  the save.
\<close>

theorem null_publish_date_copied:
  assumes "is_published e" and "created_on e = Some c" and "year c = 9999"
      and "publish_date e = None"
  shows "\<exists>self5 e' table'. created_on self5 = None
           \<and> Model_save pk BlogEntry_set_pk table self5 = (e', table')
           \<and> BlogEntry_save slugify now table e = Some (None, e', table')
           \<and> created_on e' = None
           \<and> get_row pk table' (pk e') = Some e'"
proof -
  obtain self4 where sv: "BlogEntry_save slugify now table e =
      Some (None, Model_save pk BlogEntry_set_pk table (self4\<lparr>created_on := publish_date e\<rparr>))"
    using BlogEntry_save_shape[of now table e slugify] assms by auto
  obtain e' table' where "Model_save pk BlogEntry_set_pk table (self4\<lparr>created_on := publish_date e\<rparr>) = (e', table')"
      "get_row pk table' (pk e') = Some e'" "created_on e' = publish_date e"
    using Model_save_entry[of table "self4\<lparr>created_on := publish_date e\<rparr>"] by auto
  with sv assms(4) show ?thesis
    by (intro exI[of _ "self4\<lparr>created_on := publish_date e\<rparr>"] exI[of _ e'] exI[of _ table']) simp
qed

theorem null_publish_date_copied_witness:
  "is_published (new_entry ''Hello World'' ''second text'' True None)
   \<and> created_on (new_entry ''Hello World'' ''second text'' True None) = Some datetime_max
   \<and> year datetime_max = 9999
   \<and> publish_date (new_entry ''Hello World'' ''second text'' True None) = None
   \<and> (\<exists>e' table'.
         BlogEntry_save slugify_ascii (mk_datetime 2020 3 3 0 0 0 0) []
           (new_entry ''Hello World'' ''second text'' True None) = Some (None, e', table')
         \<and> created_on e' = None \<and> table' = [e'] \<and> pk e' = Some 1)"
proof -
  let ?E = "new_entry ''Hello World'' ''second text'' True None"
  have a: "is_published ?E" and b: "created_on ?E = Some datetime_max"
    and p: "publish_date ?E = None"
    by (simp_all add: new_entry_def)
  obtain e' table' where
    h: "BlogEntry_save slugify_ascii (mk_datetime 2020 3 3 0 0 0 0) [] ?E = Some (None, e', table')"
       "created_on e' = None"
    using null_publish_date_copied [OF a b year_datetime_max p,
        of "[]" slugify_ascii "mk_datetime 2020 3 3 0 0 0 0"]
    by blast
  from h(1) have "table' = [e']" and "pk e' = Some 1"
    unfolding save_null_publish_date by auto
  with a b p h year_datetime_max show ?thesis by blast
qed

subsection \<open>The Blog singleton guard\<close>

text \<open>
  C5. Saving a Blog record with no assigned identity, when exactly one Blog row
  exists, raises and writes nothing: the table and the object are as before.
  Saving a Blog record whose identity is assigned never raises: the record goes
  to the storage layer. (The code reads "no identity" as the truth value of
  \<^verbatim>\<open>self.id\<close>.)
\<close>

theorem Blog_save_singleton_guard:
  "(length table = 1 \<and> \<not> truthy_id (blog_id b) \<longrightarrow>
      Blog_save table b = (Some (Exception ''Only one blog object allowed.''), b, table))
   \<and> (truthy_id (blog_id b) \<longrightarrow>
      Blog_save table b = (None, Model_save blog_id Blog_set_id table b))"
  by (simp add: Blog_save_def split: prod.split)

theorem Blog_save_singleton_guard_witness:
  "Blog_save
     [\<lparr>blog_id = Some 1, blog_title = ''Mine'', tag_line = ''t'', entries_per_page = 10,
       recents = 5, recent_comments = 5\<rparr>]
     \<lparr>blog_id = None, blog_title = ''Other'', tag_line = ''u'', entries_per_page = 10,
       recents = 5, recent_comments = 5\<rparr>
   = (Some (Exception ''Only one blog object allowed.''),
      \<lparr>blog_id = None, blog_title = ''Other'', tag_line = ''u'', entries_per_page = 10,
       recents = 5, recent_comments = 5\<rparr>,
      [\<lparr>blog_id = Some 1, blog_title = ''Mine'', tag_line = ''t'', entries_per_page = 10,
       recents = 5, recent_comments = 5\<rparr>])
   \<and> Blog_save
     [\<lparr>blog_id = Some 1, blog_title = ''Mine'', tag_line = ''t'', entries_per_page = 10,
       recents = 5, recent_comments = 5\<rparr>]
     \<lparr>blog_id = Some 1, blog_title = ''Renamed'', tag_line = ''t'', entries_per_page = 20,
       recents = 5, recent_comments = 5\<rparr>
   = (None,
      \<lparr>blog_id = Some 1, blog_title = ''Renamed'', tag_line = ''t'', entries_per_page = 20,
       recents = 5, recent_comments = 5\<rparr>,
      [\<lparr>blog_id = Some 1, blog_title = ''Renamed'', tag_line = ''t'', entries_per_page = 20,
       recents = 5, recent_comments = 5\<rparr>])"
  using
    Blog_save_singleton_guard [of
      "[\<lparr>blog_id = Some 1, blog_title = ''Mine'', tag_line = ''t'', entries_per_page = 10,
         recents = 5, recent_comments = 5\<rparr>]"
      "\<lparr>blog_id = None, blog_title = ''Other'', tag_line = ''u'', entries_per_page = 10,
         recents = 5, recent_comments = 5\<rparr>"]
    Blog_save_singleton_guard [of
      "[\<lparr>blog_id = Some 1, blog_title = ''Mine'', tag_line = ''t'', entries_per_page = 10,
         recents = 5, recent_comments = 5\<rparr>]"
      "\<lparr>blog_id = Some 1, blog_title = ''Renamed'', tag_line = ''t'', entries_per_page = 20,
         recents = 5, recent_comments = 5\<rparr>"]
  by (simp add: truthy_id_def Model_save_def)

text \<open>
  C10. The guard raises exactly when the table holds one row and the record has
  no identity. In a table of two or more rows a record with no identity is
  saved without error; a record whose id is \<^verbatim>\<open>None\<close> is appended as a further
  row under the next automatic key.
\<close>

theorem Blog_save_raises_iff:
  "(fst (Blog_save table b) \<noteq> None \<longleftrightarrow> length table = 1 \<and> \<not> truthy_id (blog_id b))
   \<and> (2 \<le> length table \<and> \<not> truthy_id (blog_id b) \<longrightarrow>
        Blog_save table b = (None, Model_save blog_id Blog_set_id table b))
   \<and> (2 \<le> length table \<and> blog_id b = None \<longrightarrow>
        Blog_save table b =
          (None, b\<lparr>blog_id := Some (next_pk (map blog_id table))\<rparr>,
           table @ [b\<lparr>blog_id := Some (next_pk (map blog_id table))\<rparr>]))"
  by (simp add: Blog_save_def Model_save_def Blog_set_id_def truthy_id_def Let_def split: prod.split)

theorem Blog_save_raises_iff_witness:
  "Blog_save
     [\<lparr>blog_id = Some 1, blog_title = ''A'', tag_line = ''a'', entries_per_page = 10,
       recents = 5, recent_comments = 5\<rparr>,
      \<lparr>blog_id = Some 2, blog_title = ''B'', tag_line = ''b'', entries_per_page = 10,
       recents = 5, recent_comments = 5\<rparr>]
     \<lparr>blog_id = None, blog_title = ''C'', tag_line = ''c'', entries_per_page = 10,
       recents = 5, recent_comments = 5\<rparr>
   = (None,
      \<lparr>blog_id = Some 3, blog_title = ''C'', tag_line = ''c'', entries_per_page = 10,
       recents = 5, recent_comments = 5\<rparr>,
      [\<lparr>blog_id = Some 1, blog_title = ''A'', tag_line = ''a'', entries_per_page = 10,
       recents = 5, recent_comments = 5\<rparr>,
       \<lparr>blog_id = Some 2, blog_title = ''B'', tag_line = ''b'', entries_per_page = 10,
       recents = 5, recent_comments = 5\<rparr>,
       \<lparr>blog_id = Some 3, blog_title = ''C'', tag_line = ''c'', entries_per_page = 10,
       recents = 5, recent_comments = 5\<rparr>])"
  using
    Blog_save_raises_iff [of
      "[\<lparr>blog_id = Some 1, blog_title = ''A'', tag_line = ''a'', entries_per_page = 10,
         recents = 5, recent_comments = 5\<rparr>,
        \<lparr>blog_id = Some 2, blog_title = ''B'', tag_line = ''b'', entries_per_page = 10,
         recents = 5, recent_comments = 5\<rparr>]"
      "\<lparr>blog_id = None, blog_title = ''C'', tag_line = ''c'', entries_per_page = 10,
         recents = 5, recent_comments = 5\<rparr>"]
  by (simp add: next_pk_def)

end
